theory Spec2Isabelle
  imports Complex_Main
begin

section \<open>Values of the host language\<close>

text \<open>
  The simulation is written in TypeScript. Its numbers are modelled as exact reals, and as
  integers where the program uses them as array indices or ids (street, segment, intersection,
  type); only \<open>computeMaxCars\<close>, whose operations are not those of the formula it is
  compared with, rounds each operation as a double does. Reading an array outside its bounds gives \<open>undefined\<close> in the source; reading a
  property of \<open>undefined\<close> throws. Both are made explicit:

  \<^item> \<open>TypeError\<close>: the source throws at this point (a property of \<open>undefined\<close> is read);
  \<^item> \<open>NotANumber\<close>: the source goes on with \<open>undefined\<close>, \<open>NaN\<close> or an infinity in a
    number (an out-of-range read used in arithmetic, a division by zero); the model has no
    such values and stops there;
  \<^item> \<open>OutOfFuel\<close>: the bounded unrolling of \<open>moveCar\<close>'s loop was too short.
\<close>

datatype fault = TypeError | NotANumber | OutOfFuel

definition elemAt :: "'a list \<Rightarrow> int \<Rightarrow> 'a option" where
  "elemAt xs i = (if 0 \<le> i \<and> i < int (length xs) then Some (xs ! nat i) else None)"

text \<open>
  The random source is injected: \<open>g 0\<close> is the next value of \<open>Math.random()\<close>, and the
  rest of the sequence is \<open>g \<circ> Suc\<close>.
\<close>

type_synonym random = "nat \<Rightarrow> real"

definition randomInteger :: "random \<Rightarrow> int \<Rightarrow> int \<Rightarrow> int \<times> random" where
  "randomInteger g lo hi = (\<lfloor>g 0 * real_of_int (hi - lo + 1)\<rfloor> + lo, g \<circ> Suc)"

definition randomFloat :: "random \<Rightarrow> real \<Rightarrow> real \<Rightarrow> real \<times> random" where
  "randomFloat g lo hi = (g 0 * (hi - lo) + lo, g \<circ> Suc)"

subsection \<open>Geometry\<close>

record Point3d =
  x3 :: real
  y3 :: real
  z3 :: real

record Point2d =
  x2 :: real
  y2 :: real

record Vector2d =
  xv :: real
  yv :: real

definition minus3d :: "Point3d \<Rightarrow> Point3d \<Rightarrow> Point3d" where
  "minus3d a b = \<lparr>x3 = x3 a - x3 b, y3 = y3 a - y3 b, z3 = z3 a - z3 b\<rparr>"

definition plusScaled :: "Point3d \<Rightarrow> Point3d \<Rightarrow> real \<Rightarrow> Point3d" where
  "plusScaled a v s = \<lparr>x3 = x3 a + x3 v * s, y3 = y3 a + y3 v * s, z3 = z3 a + z3 v * s\<rparr>"

definition distance3d :: "Point3d \<Rightarrow> Point3d \<Rightarrow> real" where
  "distance3d a b = sqrt ((x3 a - x3 b)\<^sup>2 + (y3 a - y3 b)\<^sup>2 + (z3 a - z3 b)\<^sup>2)"

section \<open>Data model\<close>

record Street =
  points :: "Point3d list"
  distance :: "real list"
  totalDistance :: real
  speed :: real
  inTo :: int

text \<open>
  \<open>findPath\<close> is a method of the intersection whose body is not part of the sources at
  hand; it is carried as a field, so that every result below holds for each way of
  computing it.
\<close>

record Intersection =
  streetsOut :: "int list"
  inOutPaths :: "Street list"
  inOutProbabilities :: "int \<Rightarrow> real list option"
  stop :: bool
  findPath :: "int \<Rightarrow> int \<Rightarrow> int"

record CarParticle =
  x :: real
  y :: real
  z :: real
  speed :: real
  street :: int
  segment :: int
  segmentDist :: real
  waiting :: real
  intersection :: int
  type :: int
  direction :: "Vector2d option"
  rotationMatrix :: "real list option"

datatype Density = Low | Medium | High

record CarVisualization =
  carParticles :: "CarParticle list"
  streets :: "Street list"
  intersections :: "int \<Rightarrow> Intersection option"
  startStreetIndices :: "int list"
  startStreetProbabilities :: "real list"
  numCars :: real
  packingRatio :: real
  maxCars :: real
  carSize :: Point2d
  numTypes :: int

definition carSpacingDefault :: real where
  "carSpacingDefault = 1.25"

definition accelerationDefault :: real where
  "accelerationDefault = 10"

definition waitTime :: real where
  "waitTime = 1"

section \<open>Doubles\<close>

text \<open>
  Rounding to the nearest double: 53 significant bits, ties to the even neighbour.
  \<open>exponent a\<close> is the \<open>e\<close> with \<open>2^e \<le> a < 2^(e+1)\<close>, found by halving or doubling
  \<open>a > 0\<close>. The exponent range is not bounded (no overflow, no underflow), and a zero is
  \<open>+0\<close>.
\<close>

function expoHi :: "real \<Rightarrow> int" where
  "expoHi a = (if 2 \<le> a then expoHi (a / 2) + 1 else 0)"
  by pat_completeness auto
termination
proof (relation "measure (\<lambda>a. nat \<lceil>a\<rceil>)")
  show "wf (measure (\<lambda>a. nat \<lceil>a\<rceil>))"
    by simp
next
  fix a :: real
  assume "2 \<le> a"
  then have "nat \<lceil>a / 2\<rceil> < nat \<lceil>a\<rceil>"
    by linarith
  then show "(a / 2, a) \<in> measure (\<lambda>a. nat \<lceil>a\<rceil>)"
    by simp
qed

function expoLo :: "real \<Rightarrow> int" where
  "expoLo a = (if 0 < a \<and> a < 1 then expoLo (2 * a) - 1 else 0)"
  by pat_completeness auto
termination
proof (relation "measure (\<lambda>a. nat \<lceil>1 / a\<rceil>)")
  show "wf (measure (\<lambda>a. nat \<lceil>1 / a\<rceil>))"
    by simp
next
  fix a :: real
  assume a: "0 < a \<and> a < 1"
  define b where "b = 1 / a"
  have "1 < b"
    using a by (simp add: b_def)
  then have "2 \<le> \<lceil>b\<rceil>"
    by (simp add: le_ceiling_iff)
  then have "nat \<lceil>b / 2\<rceil> < nat \<lceil>b\<rceil>"
    by linarith
  moreover have "1 / (2 * a) = b / 2"
    by (simp add: b_def)
  ultimately have "nat \<lceil>1 / (2 * a)\<rceil> < nat \<lceil>1 / a\<rceil>"
    by (simp only: b_def)
  then show "(2 * a, a) \<in> measure (\<lambda>a. nat \<lceil>1 / a\<rceil>)"
    by (simp only: in_measure)
qed

declare expoHi.simps [simp del] expoLo.simps [simp del]

definition exponent :: "real \<Rightarrow> int" where
  "exponent a = (if 1 \<le> a then expoHi a else expoLo a)"

definition roundEven :: "real \<Rightarrow> int" where
  "roundEven q =
     (let f = \<lfloor>q\<rfloor>; r = q - real_of_int f
      in if r < 1 / 2 then f else if r > 1 / 2 then f + 1 else if even f then f else f + 1)"

definition double :: "real \<Rightarrow> real" where
  "double a =
     (if a = 0 then 0
      else let u = 2 powi (exponent \<bar>a\<bar> - 52)
           in real_of_int (roundEven (a / u)) * u)"

section \<open>Configuration\<close>

text \<open>
  \<open>computeMaxCars\<close> in double arithmetic. With \<open>c = 0\<close> the reciprocal \<open>d\<close> is an
  infinity (\<open>-Infinity\<close> when a factor is negative); then every street adds \<open>+Infinity\<close>,
  \<open>-Infinity\<close> or \<open>NaN\<close>, and the function returns the cap when the sum is \<open>+Infinity\<close>.
\<close>

definition computeMaxCars :: "CarVisualization \<Rightarrow> real \<Rightarrow> real \<Rightarrow> real \<Rightarrow> fault + real" where
  "computeMaxCars vis carSz packing cap =
     (let c = double (double (carSz * carSpacingDefault) * packing)
      in if c = 0 then
           (if streets vis = [] then Inr (if 0 > cap then cap else 0)
            else if list_all (\<lambda>st. if carSz < 0 \<or> packing < 0 then totalDistance st < 0
                                      else totalDistance st > 0) (streets vis)
            then Inr cap
            else Inl NotANumber)
         else
           (let d = double (1 / c);
                carsThatCanFit =
                  foldl (\<lambda>acc st.
                           double (acc + double (real_of_int \<lfloor>double (totalDistance st * d)\<rfloor> + 1)))
                    0 (streets vis)
            in Inr (if carsThatCanFit > cap then cap else carsThatCanFit)))"


definition getNumberOfCars :: "real \<Rightarrow> Density \<Rightarrow> real" where
  "getNumberOfCars cap density =
     (if density = Low then cap / 5 else if density = Medium then cap / 3 else cap)"

definition changeDensity :: "Density \<Rightarrow> CarVisualization \<Rightarrow> fault + CarVisualization" where
  "changeDensity density vis =
     (case computeMaxCars vis (y2 (carSize vis)) (packingRatio vis) (maxCars vis) of
        Inl e \<Rightarrow> Inl e
      | Inr totalCars \<Rightarrow> Inr (vis\<lparr>numCars := getNumberOfCars totalCars density\<rparr>))"

text \<open>
  \<open>carSizeDefaultX\<close> and \<open>carSizeDefaultY\<close> are constants imported from the network
  module; they are parameters here.
\<close>

definition setSize :: "real \<Rightarrow> real \<Rightarrow> real \<Rightarrow> CarVisualization \<Rightarrow> CarVisualization" where
  "setSize carSizeDefaultX carSizeDefaultY sizeFactor vis =
     vis\<lparr>carSize := \<lparr>x2 = carSizeDefaultX * sizeFactor, y2 = carSizeDefaultY * sizeFactor\<rparr>\<rparr>"

definition getParticles :: "CarVisualization \<Rightarrow> CarParticle list" where
  "getParticles vis = carParticles vis"

section \<open>Position and heading on a street\<close>

definition setPositionOnStreet :: "CarParticle \<Rightarrow> Street \<Rightarrow> fault + CarParticle" where
  "setPositionOnStreet car st =
     (case (elemAt (points st) (segment car + 1), elemAt (points st) (segment car)) of
        (Some b, Some a) \<Rightarrow>
          (case elemAt (distance st) (segment car) of
             None \<Rightarrow> Inl NotANumber
           | Some d \<Rightarrow>
               if d = 0 then Inl NotANumber
               else let ratio = segmentDist car / d;
                        tmpPntA = minus3d b a;
                        tmpPntB = plusScaled a tmpPntA ratio
                    in Inr (car\<lparr>x := x3 tmpPntB, y := y3 tmpPntB, z := z3 tmpPntB\<rparr>))
      | _ \<Rightarrow> Inl TypeError)"

definition headingOf :: "Point3d \<Rightarrow> Vector2d" where
  "headingOf dir = \<lparr>xv = x3 dir, yv = - y3 dir\<rparr>"

definition setDirectionOnStreet :: "CarParticle \<Rightarrow> Street option \<Rightarrow> fault + CarParticle" where
  "setDirectionOnStreet car sto =
     (case sto of
        None \<Rightarrow> Inl TypeError
      | Some st \<Rightarrow>
          let n = int (length (points st)) in
          if segment car \<ge> n - 1 then
            (case (elemAt (points st) (n - 1), elemAt (points st) (n - 2)) of
               (Some b, Some a) \<Rightarrow> Inr (car\<lparr>direction := Some (headingOf (minus3d b a))\<rparr>)
             | _ \<Rightarrow> Inl TypeError)
          else
            (case (elemAt (points st) (segment car + 1), elemAt (points st) (segment car)) of
               (Some b, Some a) \<Rightarrow> Inr (car\<lparr>direction := Some (headingOf (minus3d b a))\<rparr>)
             | _ \<Rightarrow> Inl TypeError))"

text \<open>
  \<open>normalize\<close> belongs to the geometry library (it gives no vector for a heading of
  length zero); it is the parameter \<open>normalizeV\<close>.
\<close>

definition setRotationMatrix :: "(Vector2d \<Rightarrow> Vector2d option) \<Rightarrow> CarParticle \<Rightarrow> CarParticle" where
  "setRotationMatrix normalizeV car =
     (case direction car of
        None \<Rightarrow> car
      | Some dv \<Rightarrow>
          (case normalizeV dv of
             None \<Rightarrow> car
           | Some d \<Rightarrow> car\<lparr>rotationMatrix := Some [xv d, yv d, 0, - yv d, xv d, 0, 0, 0, 0]\<rparr>))"

section \<open>Creating and restarting particles\<close>

text \<open>
  \<open>emitCar\<close>: the three arguments are optional in the source. Without a street, a start
  street is drawn; the loop over \<open>startStreetProbabilities\<close> has no \<open>break\<close>, so it
  keeps the last entry whose probability exceeds the draw.
\<close>

definition chooseStartStreet :: "CarVisualization \<Rightarrow> random \<Rightarrow> int option \<times> random" where
  "chooseStartStreet vis g =
     (let (i, g1) = randomInteger g 0 (int (length (startStreetIndices vis)) - 1);
          street0 = elemAt (startStreetIndices vis) i;
          (probability, g2) = randomFloat g1 0 1
      in (foldl (\<lambda>s p. if startStreetProbabilities vis ! p > probability
                         then elemAt (startStreetIndices vis) (int p) else s)
                street0 [0 ..< length (startStreetProbabilities vis)],
          g2))"

definition emitCar ::
  "CarVisualization \<Rightarrow> random \<Rightarrow> int option \<Rightarrow> int option \<Rightarrow> real option
     \<Rightarrow> fault + (CarParticle \<times> random)" where
  "emitCar vis g streetArg segmentArg distanceArg =
     (let (streetChoice, g1) =
            (case streetArg of Some s \<Rightarrow> (Some s, g) | None \<Rightarrow> chooseStartStreet vis g);
          seg = (case segmentArg of Some s \<Rightarrow> s | None \<Rightarrow> 0)
      in case streetChoice of
           None \<Rightarrow> Inl TypeError
         | Some s \<Rightarrow>
            (case elemAt (streets vis) s of
               None \<Rightarrow> Inl TypeError
             | Some st \<Rightarrow>
                (case elemAt (points st) seg of
                   None \<Rightarrow> Inl TypeError
                 | Some p \<Rightarrow>
                    let (ty, g2) = randomInteger g1 0 (numTypes vis - 1);
                        car = \<lparr>x = x3 p, y = y3 p, z = z3 p, speed = 0, street = s,
                               segment = seg, segmentDist = 0, waiting = 0, intersection = -1,
                               type = ty, direction = None, rotationMatrix = None\<rparr>;
                        placed =
                          (case segmentArg of
                             None \<Rightarrow> Inr car
                           | Some sg \<Rightarrow>
                               if sg \<ge> int (length (distance st)) then
                                 (case elemAt (points st) (seg + 1) of
                                    None \<Rightarrow> Inl TypeError
                                  | Some q \<Rightarrow>
                                      Inr (car\<lparr>segment := int (length (distance st)) - 1,
                                                x := x3 q, y := y3 q, z := z3 q,
                                                segmentDist := distance3d q p\<rparr>))
                               else
                                 (case distanceArg of
                                    None \<Rightarrow> Inr car
                                  | Some d \<Rightarrow> setPositionOnStreet (car\<lparr>segmentDist := d\<rparr>) st))
                    in (case placed of
                          Inl e \<Rightarrow> Inl e
                        | Inr c \<Rightarrow>
                           (case setDirectionOnStreet c (elemAt (streets vis) (street c)) of
                              Inl e \<Rightarrow> Inl e
                            | Inr c' \<Rightarrow> Inr (c', g2))))))"

definition restartCar ::
  "CarVisualization \<Rightarrow> random \<Rightarrow> CarParticle \<Rightarrow> fault + (CarParticle \<times> random)" where
  "restartCar vis g car =
     (let (i, g1) = randomInteger g 0 (int (length (startStreetIndices vis)) - 1)
      in case elemAt (startStreetIndices vis) i of
           None \<Rightarrow> Inl TypeError
         | Some s \<Rightarrow>
            (case elemAt (streets vis) s of
               None \<Rightarrow> Inl TypeError
             | Some st \<Rightarrow>
                (case elemAt (points st) 0 of
                   None \<Rightarrow> Inl TypeError
                 | Some p \<Rightarrow>
                    let (ty, g2) = randomInteger g1 0 (numTypes vis - 1);
                        car' = car\<lparr>x := x3 p, y := y3 p, z := z3 p, speed := 0, street := s,
                                   segment := 0, segmentDist := 0, waiting := 0,
                                   intersection := -1, type := ty\<rparr>
                    in (case setDirectionOnStreet car' (elemAt (streets vis) (street car')) of
                          Inl e \<Rightarrow> Inl e
                        | Inr c \<Rightarrow> Inr (c, g2)))))"

section \<open>Kinematics\<close>

text \<open>
  The \<open>do ... while\<close> of \<open>moveCarOnStreet\<close>: its first round is unconditional and is
  written out in \<open>moveCarOnStreet\<close>; \<open>advanceSegments\<close> is the loop from the first test
  of the condition on.
\<close>

function advanceSegments :: "real list \<Rightarrow> int \<Rightarrow> real \<Rightarrow> int \<times> real" where
  "advanceSegments ds seg d =
     (if 0 \<le> seg \<and> seg < int (length ds) \<and> d \<ge> ds ! nat seg
      then advanceSegments ds (seg + 1) (d - ds ! nat seg)
      else (seg, d))"
  by pat_completeness auto
termination
  by (relation "measure (\<lambda>(ds, seg, d). nat (int (length ds) - seg))") auto

definition accelerate :: "CarParticle \<Rightarrow> Street \<Rightarrow> real \<Rightarrow> CarParticle" where
  "accelerate car st elapsedSeconds =
     (if speed car < Street.speed st then
        (let v = speed car + accelerationDefault * elapsedSeconds
         in car\<lparr>speed := (if v > Street.speed st then Street.speed st else v)\<rparr>)
      else if speed car > Street.speed st then
        (let v = speed car - accelerationDefault * elapsedSeconds
         in car\<lparr>speed := (if v < Street.speed st then Street.speed st else v)\<rparr>)
      else car)"

definition moveCarOnStreet ::
  "CarParticle \<Rightarrow> Street \<Rightarrow> real \<Rightarrow> fault + (real \<times> CarParticle)" where
  "moveCarOnStreet car st elapsedSeconds =
     (let car1 = accelerate car st elapsedSeconds;
          car2 = car1\<lparr>segmentDist := segmentDist car1 + elapsedSeconds * speed car1\<rparr>
      in case elemAt (distance st) (segment car2) of
           None \<Rightarrow> Inl NotANumber
         | Some d \<Rightarrow>
            if segmentDist car2 < d then
              (case setPositionOnStreet car2 st of
                 Inl e \<Rightarrow> Inl e
               | Inr c \<Rightarrow> Inr (-1, c))
            else
              let (seg, dist) = advanceSegments (distance st) (segment car2 + 1) (segmentDist car2 - d);
                  car3 = car2\<lparr>segmentDist := dist, segment := seg\<rparr>
              in if seg < int (length (distance st)) then
                   (case setPositionOnStreet car3 st of
                      Inl e \<Rightarrow> Inl e
                    | Inr c \<Rightarrow>
                       (case setDirectionOnStreet c (Some st) of
                          Inl e \<Rightarrow> Inl e
                        | Inr c' \<Rightarrow> Inr (-1, c')))
                 else
                   (case elemAt (points st) seg of
                      None \<Rightarrow> Inl TypeError
                    | Some p \<Rightarrow>
                       if speed car3 = 0 then Inl NotANumber
                       else
                         let car4 = car3\<lparr>x := x3 p, y := y3 p, z := z3 p\<rparr>;
                             timeLeft = segmentDist car4 / speed car4
                         in (case elemAt (distance st) (seg - 1) of
                               None \<Rightarrow> Inl NotANumber
                             | Some l \<Rightarrow>
                                (case setDirectionOnStreet (car4\<lparr>segmentDist := l\<rparr>) (Some st) of
                                   Inl e \<Rightarrow> Inl e
                                 | Inr c \<Rightarrow> Inr (timeLeft, c)))))"

section \<open>Routing\<close>

definition getNextStreet :: "random \<Rightarrow> Intersection \<Rightarrow> int \<Rightarrow> fault + (int \<times> random)" where
  "getNextStreet g isec streetIn =
     (case inOutProbabilities isec streetIn of
        None \<Rightarrow> Inr (-1, g)
      | Some probabilities \<Rightarrow>
          let (r, g1) = randomFloat g 0 1
          in (case find (\<lambda>index. r < probabilities ! index) [0 ..< length probabilities] of
                None \<Rightarrow> Inr (-1, g1)
              | Some index \<Rightarrow>
                 (case elemAt (streetsOut isec) (int index) of
                    None \<Rightarrow> Inl NotANumber
                  | Some s \<Rightarrow> Inr (s, g1))))"

text \<open>
  One round of \<open>moveCar\<close>'s loop either returns from \<open>moveCar\<close> (\<open>Done\<close>) or goes round
  again (\<open>Again\<close>, with the values of \<open>elapsedSeconds\<close> and \<open>timeLeft\<close>).
\<close>

datatype step = Done CarParticle random | Again CarParticle random real real

text \<open>
  The end of an intersection path was reached (\<open>car.intersection >= 0\<close>). The source reads
  \<open>intersections.get(car.intersection)?.inOutPaths[car.street].inTo || car.street\<close>:
  the \<open>||\<close> takes its right operand when the left one is \<open>undefined\<close> or \<open>0\<close>.
\<close>

definition leavePath :: "CarVisualization \<Rightarrow> CarParticle \<Rightarrow> fault + CarParticle" where
  "leavePath vis car =
     (case (case intersections vis (intersection car) of
              None \<Rightarrow> Inr (street car)
            | Some isec \<Rightarrow>
               (case elemAt (inOutPaths isec) (street car) of
                  None \<Rightarrow> Inl TypeError
                | Some path \<Rightarrow> Inr (if inTo path = 0 then street car else inTo path))) of
        Inl e \<Rightarrow> Inl e
      | Inr s \<Rightarrow>
          (let car' = car\<lparr>street := s, segment := 0, segmentDist := 0, intersection := -1\<rparr>
           in setDirectionOnStreet car' (elemAt (streets vis) (street car'))))"

text \<open>The end of an ordinary street was reached (\<open>car.intersection < 0\<close>).\<close>

definition leaveStreet ::
  "CarVisualization \<Rightarrow> random \<Rightarrow> CarParticle \<Rightarrow> real \<Rightarrow> real \<Rightarrow> fault + step" where
  "leaveStreet vis g car elapsedSeconds timeLeft =
     (case elemAt (streets vis) (street car) of
        None \<Rightarrow> Inl TypeError
      | Some st \<Rightarrow>
         (let curIntersectionId = inTo st;
              curIntersection = intersections vis curIntersectionId;
              outCount = (case curIntersection of
                            None \<Rightarrow> 0
                          | Some isec \<Rightarrow> int (length (streetsOut isec)))
          in if curIntersectionId < 0 \<or> outCount = 0 then
               (case restartCar vis g car of
                  Inl e \<Rightarrow> Inl e
                | Inr (c, g') \<Rightarrow> Inr (Done c g'))
             else
               (case curIntersection of
                  None \<Rightarrow> Inr (Again car g elapsedSeconds timeLeft)
                | Some isec \<Rightarrow>
                   (case getNextStreet g isec (street car) of
                      Inl e \<Rightarrow> Inl e
                    | Inr (outStreetIndex, g1) \<Rightarrow>
                       (let car1 = car\<lparr>street := findPath isec (street car) outStreetIndex,
                                         segment := 0, segmentDist := 0\<rparr>
                        in if street car1 = -1 then
                             (let car2 = car1\<lparr>street := outStreetIndex\<rparr>
                              in (case setDirectionOnStreet car2 (elemAt (streets vis) (street car2)) of
                                    Inl e \<Rightarrow> Inl e
                                  | Inr c \<Rightarrow> Inr (Again c g1 elapsedSeconds timeLeft)))
                           else
                             (let car2 = car1\<lparr>intersection := curIntersectionId\<rparr>
                              in if stop isec then
                                   (let car3 = car2\<lparr>speed := 0\<rparr>
                                    in if timeLeft < waitTime
                                       then Inr (Done (car3\<lparr>waiting := waitTime - timeLeft\<rparr>) g1)
                                       else Inr (Again car3 g1 elapsedSeconds (timeLeft - waitTime)))
                                 else
                                   (case setDirectionOnStreet car2
                                           (elemAt (inOutPaths isec) (street car2)) of
                                      Inl e \<Rightarrow> Inl e
                                    | Inr c \<Rightarrow> Inr (Again c g1 elapsedSeconds timeLeft))))))))"

text \<open>The body of the \<open>while (timeLeft > 0)\<close> loop of \<open>moveCar\<close>.\<close>

definition moveCarBody ::
  "CarVisualization \<Rightarrow> random \<Rightarrow> CarParticle \<Rightarrow> real \<Rightarrow> real \<Rightarrow> fault + step" where
  "moveCarBody vis g car elapsedSeconds timeLeft =
     (if waiting car > 0 \<and> elapsedSeconds \<le> waiting car then
        Inr (Done (car\<lparr>waiting := waiting car - elapsedSeconds\<rparr>) g)
      else
        (let elapsed1 = (if waiting car > 0 then elapsedSeconds - waiting car else elapsedSeconds);
             car1 = (if waiting car > 0 then car\<lparr>waiting := 0\<rparr> else car);
             curStreet =
               (if intersection car1 = -1 then elemAt (streets vis) (street car1)
                else (case intersections vis (intersection car1) of
                        None \<Rightarrow> None
                      | Some isec \<Rightarrow> elemAt (inOutPaths isec) (street car1)))
         in (case curStreet of
               None \<Rightarrow> Inr (Done car1 g)
             | Some cs \<Rightarrow>
                (case (if speed car1 = 0 then setDirectionOnStreet car1 (Some cs) else Inr car1) of
                   Inl e \<Rightarrow> Inl e
                 | Inr car2 \<Rightarrow>
                    (case moveCarOnStreet car2 cs timeLeft of
                       Inl e \<Rightarrow> Inl e
                     | Inr (timeLeft1, car3) \<Rightarrow>
                        if timeLeft1 < 0 then Inr (Done car3 g)
                        else if intersection car3 \<ge> 0 then
                          (case leavePath vis car3 of
                             Inl e \<Rightarrow> Inl e
                           | Inr c \<Rightarrow> Inr (Again c g elapsed1 timeLeft1))
                        else leaveStreet vis g car3 elapsed1 timeLeft1)))))"

fun moveCarLoop ::
  "nat \<Rightarrow> CarVisualization \<Rightarrow> random \<Rightarrow> CarParticle \<Rightarrow> real \<Rightarrow> real
     \<Rightarrow> fault + (CarParticle \<times> random)" where
  "moveCarLoop 0 vis g car elapsedSeconds timeLeft =
     (if timeLeft > 0 then Inl OutOfFuel else Inr (car, g))"
| "moveCarLoop (Suc fuel) vis g car elapsedSeconds timeLeft =
     (if timeLeft > 0 then
        (case moveCarBody vis g car elapsedSeconds timeLeft of
           Inl e \<Rightarrow> Inl e
         | Inr (Done c g') \<Rightarrow> Inr (c, g')
         | Inr (Again c g' elapsed1 timeLeft1) \<Rightarrow> moveCarLoop fuel vis g' c elapsed1 timeLeft1)
      else Inr (car, g))"

definition moveCar ::
  "nat \<Rightarrow> CarVisualization \<Rightarrow> random \<Rightarrow> CarParticle \<Rightarrow> real \<Rightarrow> fault + (CarParticle \<times> random)" where
  "moveCar fuel vis g car elapsedSeconds = moveCarLoop fuel vis g car elapsedSeconds elapsedSeconds"

section \<open>Frame update\<close>

text \<open>
  The three loops of \<open>updateParticles\<close>: add cars (\<open>spawnCar\<close> is one round of that
  loop), remove excess cars, move each car.
\<close>

definition spawnCar :: "CarVisualization \<Rightarrow> random \<Rightarrow> fault + (CarParticle \<times> random)" where
  "spawnCar vis g =
     (let (s, g1) = randomInteger g 0 (int (length (streets vis)) - 1)
      in (case elemAt (streets vis) s of
            None \<Rightarrow> Inl TypeError
          | Some st \<Rightarrow>
             (let (seg, g2) = randomInteger g1 0 (int (length (distance st)) - 1)
              in (case elemAt (distance st) seg of
                    None \<Rightarrow> Inl NotANumber
                  | Some d \<Rightarrow>
                     (let (dist, g3) = randomFloat g2 0 d
                      in emitCar vis g3 (Some s) (Some seg) (Some dist))))))"

function addCars ::
  "CarVisualization \<Rightarrow> random \<Rightarrow> CarParticle list \<Rightarrow> real
     \<Rightarrow> fault + (CarParticle list \<times> random \<times> real)" where
  "addCars vis g cars n =
     (if n > 0 then
        (case spawnCar vis g of
           Inl e \<Rightarrow> Inl e
         | Inr (c, g') \<Rightarrow> addCars vis g' (cars @ [c]) (n - 1))
      else Inr (cars, g, n))"
  by pat_completeness auto
termination
proof (relation "measure (\<lambda>(vis, g, cars, n). nat \<lceil>n\<rceil>)")
  show "wf (measure (\<lambda>(vis, g, cars, n). nat \<lceil>n\<rceil>))"
    by simp
next
  fix vis :: CarVisualization and g g' :: random and cars :: "CarParticle list"
    and n :: real and c :: CarParticle
  assume "0 < n"
  then have "nat \<lceil>n - 1\<rceil> < nat \<lceil>n\<rceil>"
    by linarith
  then show "((vis, g', cars @ [c], n - 1), vis, g, cars, n)
               \<in> measure (\<lambda>(vis, g, cars, n). nat \<lceil>n\<rceil>)"
    by simp
qed

function removeCars :: "CarParticle list \<Rightarrow> real \<Rightarrow> CarParticle list \<times> real" where
  "removeCars cars n = (if n < 0 then removeCars (butlast cars) (n + 1) else (cars, n))"
  by pat_completeness auto
termination
proof (relation "measure (\<lambda>(cars, n). nat \<lceil>- n\<rceil>)")
  show "wf (measure (\<lambda>(cars, n). nat \<lceil>- n\<rceil>))"
    by simp
next
  fix cars :: "CarParticle list" and n :: real
  assume "n < 0"
  then have "nat \<lceil>- (n + 1)\<rceil> < nat \<lceil>- n\<rceil>"
    by linarith
  then show "((butlast cars, n + 1), cars, n) \<in> measure (\<lambda>(cars, n). nat \<lceil>- n\<rceil>)"
    by simp
qed

fun moveCars ::
  "nat \<Rightarrow> (Vector2d \<Rightarrow> Vector2d option) \<Rightarrow> CarVisualization \<Rightarrow> random \<Rightarrow> real
     \<Rightarrow> CarParticle list \<Rightarrow> fault + (CarParticle list \<times> random)" where
  "moveCars fuel normalizeV vis g elapsedSeconds [] = Inr ([], g)"
| "moveCars fuel normalizeV vis g elapsedSeconds (car # cars) =
     (case moveCar fuel vis g car elapsedSeconds of
        Inl e \<Rightarrow> Inl e
      | Inr (c, g1) \<Rightarrow>
         (case moveCars fuel normalizeV vis g1 elapsedSeconds cars of
            Inl e \<Rightarrow> Inl e
          | Inr (cs, g2) \<Rightarrow> Inr (setRotationMatrix normalizeV c # cs, g2)))"

text \<open>
  \<open>updateParticles\<close> gives the returned array, the visualization after the call and the
  rest of the random sequence.
\<close>

definition updateParticles ::
  "nat \<Rightarrow> (Vector2d \<Rightarrow> Vector2d option) \<Rightarrow> CarVisualization \<Rightarrow> random \<Rightarrow> real
     \<Rightarrow> fault + (CarParticle list \<times> CarVisualization \<times> random)" where
  "updateParticles fuel normalizeV vis g elapsedSeconds =
     (if length (streets vis) = 0 then Inr ([], vis, g)
      else
        (case addCars vis g (carParticles vis)
                (numCars vis - real (length (carParticles vis))) of
           Inl e \<Rightarrow> Inl e
         | Inr (cars1, g1, n1) \<Rightarrow>
            (let (cars2, n2) = removeCars cars1 n1
             in (case moveCars fuel normalizeV vis g1 elapsedSeconds cars2 of
                   Inl e \<Rightarrow> Inl e
                 | Inr (cars3, g2) \<Rightarrow> Inr (cars3, vis\<lparr>carParticles := cars3\<rparr>, g2)))))"

section \<open>The decorator\<close>

text \<open>
  Of \<open>CarDecorator\<close>, the fields that decide which particles a frame draws:
  \<open>texturesLoaded\<close> stands for \<open>_carTextures[0]\<close> being there. \<open>decorate\<close> gives the
  particles handed to the renderer (none when it returns before the update).
\<close>

record CarDecorator =
  lastUpdateTime :: real
  visualization :: CarVisualization
  speedMultiplier :: real
  pause :: bool
  texturesLoaded :: bool

definition decorate ::
  "nat \<Rightarrow> (Vector2d \<Rightarrow> Vector2d option) \<Rightarrow> real \<Rightarrow> CarDecorator \<Rightarrow> random
     \<Rightarrow> fault + (CarParticle list option \<times> CarDecorator \<times> random)" where
  "decorate fuel normalizeV now dec g =
     (if \<not> texturesLoaded dec then Inr (None, dec, g)
      else
        (let deltaMillis = (now - lastUpdateTime dec) * speedMultiplier dec;
             dec1 = dec\<lparr>lastUpdateTime := now\<rparr>
         in if pause dec1 then Inr (Some (getParticles (visualization dec1)), dec1, g)
            else
              (case updateParticles fuel normalizeV (visualization dec1) g (deltaMillis / 1000) of
                 Inl e \<Rightarrow> Inl e
               | Inr (particles, vis', g') \<Rightarrow>
                   Inr (Some particles, dec1\<lparr>visualization := vis'\<rparr>, g'))))"

declare advanceSegments.simps [simp del] addCars.simps [simp del] removeCars.simps [simp del]

section \<open>Notions used to state the properties\<close>

text \<open>The capacity and the target count, in the words of the specification.\<close>

definition capacity_spec :: "real \<Rightarrow> real \<Rightarrow> Street \<Rightarrow> real" where
  "capacity_spec carSizeY packing st =
     real_of_int \<lfloor>totalDistance st / (carSizeY * carSpacingDefault * packing)\<rfloor> + 1"

definition networkCapacity_spec :: "Street list \<Rightarrow> real \<Rightarrow> real \<Rightarrow> real \<Rightarrow> real" where
  "networkCapacity_spec sts carSizeY packing cap =
     min cap (\<Sum>st\<leftarrow>sts. capacity_spec carSizeY packing st)"

definition targetCount_spec :: "real \<Rightarrow> Density \<Rightarrow> real" where
  "targetCount_spec capacity density =
     (case density of Low \<Rightarrow> capacity / 5 | Medium \<Rightarrow> capacity / 3 | High \<Rightarrow> capacity)"

text \<open>
  The capacity as the code computes it: the spacing is inverted once, and the reciprocal and
  each product are rounded to a double.
\<close>

definition reciprocalSpacing :: "real \<Rightarrow> real \<Rightarrow> real" where
  "reciprocalSpacing carSizeY packing =
     double (1 / double (double (carSizeY * carSpacingDefault) * packing))"

definition capacityRounded_spec :: "real \<Rightarrow> real \<Rightarrow> Street \<Rightarrow> int" where
  "capacityRounded_spec carSizeY packing st =
     \<lfloor>double (totalDistance st * reciprocalSpacing carSizeY packing)\<rfloor> + 1"

definition networkCapacityRounded_spec :: "Street list \<Rightarrow> real \<Rightarrow> real \<Rightarrow> real \<Rightarrow> real" where
  "networkCapacityRounded_spec sts carSizeY packing cap =
     min cap (real_of_int (\<Sum>st\<leftarrow>sts. capacityRounded_spec carSizeY packing st))"

text \<open>The target count that the current car size and a density give.\<close>

definition recomputedTarget :: "Density \<Rightarrow> CarVisualization \<Rightarrow> fault + real" where
  "recomputedTarget density vis =
     (case computeMaxCars vis (y2 (carSize vis)) (packingRatio vis) (maxCars vis) of
        Inl e \<Rightarrow> Inl e
      | Inr capacity \<Rightarrow> Inr (getNumberOfCars capacity density))"

text \<open>The heading that \<open>setDirectionOnStreet\<close> computes on a street with two points or more.\<close>

definition streetHeading :: "Street \<Rightarrow> int \<Rightarrow> Vector2d" where
  "streetHeading st seg =
     (let n = int (length (points st))
      in if seg \<ge> n - 1
         then headingOf (minus3d (points st ! nat (n - 1)) (points st ! nat (n - 2)))
         else headingOf (minus3d (points st ! nat (seg + 1)) (points st ! nat seg)))"

text \<open>The particle lies on its segment, at the fraction of it given by \<open>segmentDist\<close>.\<close>

definition interpolated :: "Street \<Rightarrow> CarParticle \<Rightarrow> bool" where
  "interpolated st c =
     (let a = points st ! nat (segment c);
          b = points st ! nat (segment c + 1);
          ratio = segmentDist c / distance st ! nat (segment c)
      in x c = x3 a + (x3 b - x3 a) * ratio
         \<and> y c = y3 a + (y3 b - y3 a) * ratio
         \<and> z c = z3 a + (z3 b - z3 a) * ratio)"

definition atPoint :: "Point3d \<Rightarrow> CarParticle \<Rightarrow> bool" where
  "atPoint p c = (x c = x3 p \<and> y c = y3 p \<and> z c = z3 p)"

text \<open>The particle after the first two steps of \<open>moveCarOnStreet\<close>: new speed, new distance.\<close>

definition afterDrive :: "CarParticle \<Rightarrow> Street \<Rightarrow> real \<Rightarrow> CarParticle" where
  "afterDrive car st t =
     (accelerate car st t)\<lparr>segmentDist :=
        segmentDist (accelerate car st t) + t * speed (accelerate car st t)\<rparr>"

text \<open>
  \<open>moveCarOnStreet\<close> in the words of the specification. The speed moves toward the limit
  by the acceleration times the elapsed time and does not pass it; the distance travelled
  from the start of the current segment is spent on the segments ahead, one after the other
  (\<open>locate\<close> gives the segment that absorbs the rest, counted from the current one, and the
  distance into it; it gives nothing when the street is used up).
\<close>

definition approachSpeed :: "real \<Rightarrow> real \<Rightarrow> real \<Rightarrow> real" where
  "approachSpeed s limit t =
     (if s < limit then min limit (s + accelerationDefault * t)
      else max limit (s - accelerationDefault * t))"

fun locate :: "real list \<Rightarrow> real \<Rightarrow> (nat \<times> real) option" where
  "locate [] d = None"
| "locate (l # ls) d =
     (if d < l then Some (0, d)
      else (case locate ls (d - l) of None \<Rightarrow> None | Some (k, off) \<Rightarrow> Some (Suc k, off)))"

definition pointAt :: "Street \<Rightarrow> nat \<Rightarrow> real \<Rightarrow> Point3d" where
  "pointAt st k off =
     (let a = points st ! k;
          b = points st ! Suc k;
          ratio = off / distance st ! k
      in \<lparr>x3 = x3 a + (x3 b - x3 a) * ratio,
          y3 = y3 a + (y3 b - y3 a) * ratio,
          z3 = z3 a + (z3 b - z3 a) * ratio\<rparr>)"

definition travelled :: "CarParticle \<Rightarrow> Street \<Rightarrow> real \<Rightarrow> real" where
  "travelled car st t = segmentDist car + t * approachSpeed (speed car) (Street.speed st) t"

definition ahead :: "CarParticle \<Rightarrow> Street \<Rightarrow> real list" where
  "ahead car st = drop (nat (segment car)) (distance st)"

definition advanceOnStreet_spec :: "CarParticle \<Rightarrow> Street \<Rightarrow> real \<Rightarrow> real \<times> CarParticle" where
  "advanceOnStreet_spec car st t =
     (let v = approachSpeed (speed car) (Street.speed st) t;
          seg = nat (segment car)
      in case locate (ahead car st) (travelled car st t) of
           Some (k, off) \<Rightarrow>
             (- 1,
              car\<lparr>speed := v, segment := int (seg + k), segmentDist := off,
                    x := x3 (pointAt st (seg + k) off),
                    y := y3 (pointAt st (seg + k) off),
                    z := z3 (pointAt st (seg + k) off),
                    direction := (if k = 0 then direction car
                                  else Some (streetHeading st (int (seg + k))))\<rparr>)
         | None \<Rightarrow>
             ((travelled car st t - sum_list (ahead car st)) / v,
              car\<lparr>speed := v, segment := int (length (distance st)),
                    segmentDist := last (distance st),
                    x := x3 (last (points st)), y := y3 (last (points st)),
                    z := z3 (last (points st)),
                    direction := Some (streetHeading st (int (length (distance st))))\<rparr>))"

text \<open>
  Two ways of choosing a start street from a draw \<open>r\<close>: the first entry whose cumulative
  probability exceeds \<open>r\<close>, and the entry at index \<open>floor (r * n)\<close> of the \<open>n\<close> entries.
\<close>

definition weightedStartStreet :: "CarVisualization \<Rightarrow> real \<Rightarrow> int option" where
  "weightedStartStreet vis r =
     (case find (\<lambda>p. startStreetProbabilities vis ! p > r)
             [0 ..< length (startStreetProbabilities vis)] of
        None \<Rightarrow> None
      | Some p \<Rightarrow> elemAt (startStreetIndices vis) (int p))"

definition uniformStartStreet :: "CarVisualization \<Rightarrow> real \<Rightarrow> int" where
  "uniformStartStreet vis r =
     startStreetIndices vis ! nat \<lfloor>r * real (length (startStreetIndices vis))\<rfloor>"

text \<open>There is a start street, and each start street is a street with two points or more.\<close>

definition startStreetsOk :: "CarVisualization \<Rightarrow> bool" where
  "startStreetsOk vis =
     (startStreetIndices vis \<noteq> []
      \<and> list_all (\<lambda>s. 0 \<le> s \<and> s < int (length (streets vis))
                       \<and> 2 \<le> length (points (streets vis ! nat s)))
           (startStreetIndices vis))"

text \<open>
  The particle that \<open>restartCar\<close> makes of \<open>car\<close>: \<open>g 0\<close> picks the start street,
  \<open>g 1\<close> the visual variant.
\<close>

definition restarted :: "CarVisualization \<Rightarrow> random \<Rightarrow> CarParticle \<Rightarrow> CarParticle" where
  "restarted vis g car =
     (let s = uniformStartStreet vis (g 0);
          st = streets vis ! nat s;
          p = hd (points st)
      in car\<lparr>x := x3 p, y := y3 p, z := z3 p, speed := 0, street := s, segment := 0,
              segmentDist := 0, waiting := 0, intersection := -1,
              type := \<lfloor>g 1 * real_of_int (numTypes vis)\<rfloor>,
              direction := Some (streetHeading st 0)\<rparr>)"

section \<open>Example networks\<close>


definition halfDraws :: random where
  "halfDraws = (\<lambda>n. 1 / 2)"

text \<open>One street of one segment, 100 long, speed limit 10, ending at the network edge.\<close>

definition streetA :: Street where
  "streetA = \<lparr>points = [\<lparr>x3 = 0, y3 = 0, z3 = 0\<rparr>, \<lparr>x3 = 100, y3 = 0, z3 = 0\<rparr>],
              distance = [100], totalDistance = 100, Street.speed = 10, inTo = -1\<rparr>"

definition visA :: CarVisualization where
  "visA = \<lparr>carParticles = [], streets = [streetA], intersections = (\<lambda>i. None),
           startStreetIndices = [0], startStreetProbabilities = [1], numCars = 9,
           packingRatio = 10, maxCars = 9000, carSize = \<lparr>x2 = 1, y2 = 1\<rparr>, numTypes = 9\<rparr>"

definition carA :: CarParticle where
  "carA = \<lparr>x = 95, y = 0, z = 0, speed = 10, street = 0, segment = 0, segmentDist = 95,
           waiting = 0, intersection = -1, type = 0, direction = None, rotationMatrix = None\<rparr>"

definition visEmpty :: CarVisualization where
  "visEmpty = \<lparr>carParticles = [carA], streets = [], intersections = (\<lambda>i. None),
           startStreetIndices = [], startStreetProbabilities = [], numCars = 5,
           packingRatio = 10, maxCars = 9000, carSize = \<lparr>x2 = 1, y2 = 1\<rparr>, numTypes = 9\<rparr>"

definition decA :: CarDecorator where
  "decA = \<lparr>lastUpdateTime = 0, visualization = visA\<lparr>carParticles := [carA]\<rparr>,
           speedMultiplier = 1, pause = True, texturesLoaded = True\<rparr>"



text \<open>A particle as \<open>spawnCar\<close> makes it on \<open>streetA\<close>, and the same one second later.\<close>

definition carNew :: CarParticle where
  "carNew = \<lparr>x = 50, y = 0, z = 0, speed = 0, street = 0, segment = 0, segmentDist = 50,
           waiting = 0, intersection = -1, type = 4, direction = Some \<lparr>xv = 100, yv = 0\<rparr>,
           rotationMatrix = None\<rparr>"

definition carDriven :: CarParticle where
  "carDriven = \<lparr>x = 60, y = 0, z = 0, speed = 10, street = 0, segment = 0, segmentDist = 60,
           waiting = 0, intersection = -1, type = 4, direction = Some \<lparr>xv = 100, yv = 0\<rparr>,
           rotationMatrix = None\<rparr>"


text \<open>Two start streets, the first one with nine tenths of the weight.\<close>

definition streetB :: Street where
  "streetB = \<lparr>points = [\<lparr>x3 = 0, y3 = 50, z3 = 0\<rparr>, \<lparr>x3 = 0, y3 = 150, z3 = 0\<rparr>],
              distance = [100], totalDistance = 100, Street.speed = 10, inTo = -1\<rparr>"

definition visTwo :: CarVisualization where
  "visTwo = visA\<lparr>streets := [streetA, streetB], startStreetIndices := [0, 1],
                 startStreetProbabilities := [9 / 10, 1]\<rparr>"

definition draws06 :: random where
  "draws06 = (\<lambda>n. 3 / 5)"

definition carRestarted :: CarParticle where
  "carRestarted = \<lparr>x = 0, y = 50, z = 0, speed = 0, street = 1, segment = 0, segmentDist = 0,
           waiting = 0, intersection = -1, type = 5, direction = Some \<lparr>xv = 0, yv = - 100\<rparr>,
           rotationMatrix = None\<rparr>"

text \<open>
  Street 0 runs into intersection 5, which leads on to streets 1 and 2 through two connecting
  paths; the cumulative probabilities for the way in from street 0 end just below 1.
\<close>

definition streetIn :: Street where
  "streetIn = streetA\<lparr>inTo := 5\<rparr>"

definition streetC :: Street where
  "streetC = \<lparr>points = [\<lparr>x3 = 110, y3 = 0, z3 = 0\<rparr>, \<lparr>x3 = 210, y3 = 0, z3 = 0\<rparr>],
              distance = [100], totalDistance = 100, Street.speed = 10, inTo = -1\<rparr>"

definition pathToB :: Street where
  "pathToB = \<lparr>points = [\<lparr>x3 = 100, y3 = 0, z3 = 0\<rparr>, \<lparr>x3 = 0, y3 = 50, z3 = 0\<rparr>],
              distance = [112], totalDistance = 112, Street.speed = 10, inTo = 1\<rparr>"

definition pathToC :: Street where
  "pathToC = \<lparr>points = [\<lparr>x3 = 100, y3 = 0, z3 = 0\<rparr>, \<lparr>x3 = 110, y3 = 0, z3 = 0\<rparr>],
              distance = [10], totalDistance = 10, Street.speed = 10, inTo = 2\<rparr>"

definition junction :: Intersection where
  "junction = \<lparr>streetsOut = [1, 2], inOutPaths = [pathToB, pathToC],
               inOutProbabilities = (\<lambda>s. if s = 0 then Some [1 / 2, 9999 / 10000] else None),
               stop = False,
               findPath = (\<lambda>a b. if a = 0 \<and> b = 1 then 0 else if a = 0 \<and> b = 2 then 1 else -1)\<rparr>"

definition visJunction :: CarVisualization where
  "visJunction = visA\<lparr>streets := [streetIn, streetB, streetC],
                      intersections := (\<lambda>i. if i = 5 then Some junction else None)\<rparr>"

definition drawsBoundary :: random where
  "drawsBoundary = (\<lambda>n. 9999 / 10000)"

text \<open>
  Intersection 5 with a path (index 1) that leads into street 0. The particle is half way
  along that path.
\<close>

definition pathToA :: Street where
  "pathToA = \<lparr>points = [\<lparr>x3 = - 10, y3 = 0, z3 = 0\<rparr>, \<lparr>x3 = 0, y3 = 0, z3 = 0\<rparr>],
              distance = [10], totalDistance = 10, Street.speed = 10, inTo = 0\<rparr>"

definition crossing :: Intersection where
  "crossing = \<lparr>streetsOut = [1, 0], inOutPaths = [pathToB, pathToA],
               inOutProbabilities = (\<lambda>s. None), stop = False, findPath = (\<lambda>a b. -1)\<rparr>"

definition visCrossing :: CarVisualization where
  "visCrossing = visA\<lparr>streets := [streetA, streetB],
                      intersections := (\<lambda>i. if i = 5 then Some crossing else None)\<rparr>"

definition carOnPath :: CarParticle where
  "carOnPath = \<lparr>x = - 5, y = 0, z = 0, speed = 10, street = 1, segment = 0, segmentDist = 5,
           waiting = 0, intersection = 5, type = 0, direction = Some \<lparr>xv = 10, yv = 0\<rparr>,
           rotationMatrix = None\<rparr>"

definition carOnWrongStreet :: CarParticle where
  "carOnWrongStreet = \<lparr>x = 0, y = 55, z = 0, speed = 10, street = 1, segment = 0,
           segmentDist = 5, waiting = 0, intersection = -1, type = 0,
           direction = Some \<lparr>xv = 0, yv = - 100\<rparr>, rotationMatrix = None\<rparr>"

text \<open>\<open>carA\<close> at the end of \<open>streetA\<close>, as \<open>moveCarOnStreet\<close> leaves it.\<close>

definition carAtEnd :: CarParticle where
  "carAtEnd = \<lparr>x = 100, y = 0, z = 0, speed = 10, street = 0, segment = 1, segmentDist = 100,
           waiting = 0, intersection = -1, type = 0, direction = Some \<lparr>xv = 100, yv = 0\<rparr>,
           rotationMatrix = None\<rparr>"




text \<open>\<open>carOnPath\<close> at the end of its path, and after the step that leaves the path.\<close>

definition carPathEnd :: CarParticle where
  "carPathEnd = \<lparr>x = 0, y = 0, z = 0, speed = 10, street = 1, segment = 1, segmentDist = 10,
           waiting = 0, intersection = 5, type = 0, direction = Some \<lparr>xv = 10, yv = 0\<rparr>,
           rotationMatrix = None\<rparr>"

definition carEntered :: CarParticle where
  "carEntered = \<lparr>x = 0, y = 0, z = 0, speed = 10, street = 1, segment = 0, segmentDist = 0,
           waiting = 0, intersection = - 1, type = 0, direction = Some \<lparr>xv = 0, yv = - 100\<rparr>,
           rotationMatrix = None\<rparr>"


text \<open>
  A street of two segments with a bend, and \<open>carA\<close> on it one second later: five units into
  the second segment.
\<close>

definition streetBend :: Street where
  "streetBend = \<lparr>points = [\<lparr>x3 = 0, y3 = 0, z3 = 0\<rparr>, \<lparr>x3 = 100, y3 = 0, z3 = 0\<rparr>,
                          \<lparr>x3 = 100, y3 = 50, z3 = 0\<rparr>],
                 distance = [100, 50], totalDistance = 150, Street.speed = 10, inTo = -1\<rparr>"

definition carPastBend :: CarParticle where
  "carPastBend = \<lparr>x = 100, y = 5, z = 0, speed = 10, street = 0, segment = 1, segmentDist = 5,
           waiting = 0, intersection = -1, type = 0, direction = Some \<lparr>xv = 0, yv = - 50\<rparr>,
           rotationMatrix = None\<rparr>"

text \<open>
  One street whose length, 53.125, is exactly the spacing for cars of size 4.25
  (4.25 * 1.25 * 10).
\<close>

definition streetMultiple :: Street where
  "streetMultiple = \<lparr>points = [\<lparr>x3 = 0, y3 = 0, z3 = 0\<rparr>, \<lparr>x3 = 425 / 8, y3 = 0, z3 = 0\<rparr>],
                     distance = [425 / 8], totalDistance = 425 / 8, Street.speed = 10,
                     inTo = -1\<rparr>"

definition visMultiple :: CarVisualization where
  "visMultiple = visA\<lparr>streets := [streetMultiple], carSize := \<lparr>x2 = 17 / 4, y2 = 17 / 4\<rparr>\<rparr>"

section \<open>Basic facts\<close>

lemma elemAt_Some: "0 \<le> i \<Longrightarrow> i < int (length xs) \<Longrightarrow> elemAt xs i = Some (xs ! nat i)"
  by (simp add: elemAt_def)

lemma halfDraws_simps [simp]: "halfDraws \<circ> Suc = halfDraws" "halfDraws n = 1 / 2"
  by (simp_all add: halfDraws_def fun_eq_iff)

lemma draws06_simps [simp]: "draws06 \<circ> Suc = draws06" "draws06 n = 3 / 5"
  by (simp_all add: draws06_def fun_eq_iff)

lemma drawsBoundary_simps [simp]:
  "drawsBoundary \<circ> Suc = drawsBoundary" "drawsBoundary n = 9999 / 10000"
  by (simp_all add: drawsBoundary_def fun_eq_iff)

lemma random_index_in_range:
  assumes "0 \<le> r" "r < 1" "0 < n"
  shows "0 \<le> \<lfloor>r * real n\<rfloor>" "\<lfloor>r * real n\<rfloor> < int n"
proof -
  have "0 \<le> r * real n"
    using assms by simp
  then show "0 \<le> \<lfloor>r * real n\<rfloor>"
    by simp
  have "r * real n < 1 * real n"
    using assms by (intro mult_strict_right_mono) simp_all
  then have "r * real n < real_of_int (int n)"
    by simp
  then show "\<lfloor>r * real n\<rfloor> < int n"
    by (simp only: floor_less_iff)
qed

lemmas eval_defs =
  elemAt_def randomInteger_def randomFloat_def minus3d_def plusScaled_def distance3d_def
  setPositionOnStreet_def headingOf_def setDirectionOnStreet_def
  accelerate_def moveCarOnStreet_def accelerationDefault_def waitTime_def Let_def

section \<open>Rounding\<close>

lemmas double_eval =
  double_def exponent_def expoHi.simps expoLo.simps roundEven_def Let_def power_int_minus

lemma expoHi_bounds: "1 \<le> a \<Longrightarrow> 2 powi expoHi a \<le> a \<and> a < 2 powi (expoHi a + 1)"
proof (induction a rule: expoHi.induct)
  case (1 a)
  show ?case
  proof (cases "2 \<le> a")
    case False
    with "1.prems" show ?thesis
      by (simp add: expoHi.simps [of a])
  next
    case True
    then have e: "expoHi a = expoHi (a / 2) + 1"
      by (simp add: expoHi.simps [of a])
    from "1.IH" [OF True] True
    have "2 powi expoHi (a / 2) \<le> a / 2 \<and> a / 2 < 2 powi (expoHi (a / 2) + 1)"
      by simp
    then show ?thesis
      unfolding e by (simp add: power_int_add)
  qed
qed

lemma expoLo_bounds:
  "0 < a \<Longrightarrow> a < 2 \<Longrightarrow> 2 powi expoLo a \<le> a \<and> a < 2 powi (expoLo a + 1)"
proof (induction a rule: expoLo.induct)
  case (1 a)
  show ?case
  proof (cases "0 < a \<and> a < 1")
    case False
    with "1.prems" show ?thesis
      by (simp add: expoLo.simps [of a])
  next
    case True
    then have e: "expoLo a = expoLo (2 * a) - 1"
      by (simp add: expoLo.simps [of a])
    from "1.IH" [OF True] True
    have "2 powi expoLo (2 * a) \<le> 2 * a \<and> 2 * a < 2 powi (expoLo (2 * a) + 1)"
      by simp
    then show ?thesis
      unfolding e by (simp add: power_int_add power_int_diff)
  qed
qed

lemma exponent_bounds:
  assumes "0 < a"
  shows "2 powi exponent a \<le> a" "a < 2 powi (exponent a + 1)"
  using assms expoHi_bounds [of a] expoLo_bounds [of a]
  by (auto simp: exponent_def)

lemma roundEven_near: "\<bar>real_of_int (roundEven q) - q\<bar> \<le> 1 / 2"
  unfolding roundEven_def Let_def by (auto; linarith)

lemma double_error:
  "\<bar>double a - a\<bar> \<le> \<bar>a\<bar> / 2 ^ 53"
proof (cases "a = 0")
  case True
  then show ?thesis by (simp add: double_def)
next
  case False
  define e where "e = exponent \<bar>a\<bar>"
  define u :: real where "u = 2 powi (e - 52)"
  have u: "0 < u"
    by (simp add: u_def)
  have lo: "2 powi e \<le> \<bar>a\<bar>"
    using exponent_bounds(1) [of "\<bar>a\<bar>"] False by (simp add: e_def)
  have ue: "u * 2 ^ 52 = 2 powi e"
    by (simp add: u_def power_int_diff)
  have d: "double a = real_of_int (roundEven (a / u)) * u"
    using False by (simp add: double_def Let_def e_def u_def)
  have "double a - a = (real_of_int (roundEven (a / u)) - a / u) * u"
    using u by (simp add: d left_diff_distrib)
  then have "\<bar>double a - a\<bar> = \<bar>real_of_int (roundEven (a / u)) - a / u\<bar> * u"
    using u by (simp add: abs_mult)
  also have "\<dots> \<le> (1 / 2) * u"
    using roundEven_near [of "a / u"] u by (intro mult_right_mono) simp_all
  also have "\<dots> = 2 powi e / 2 ^ 53"
    using ue by simp
  also have "\<dots> \<le> \<bar>a\<bar> / 2 ^ 53"
    using lo by (simp add: divide_right_mono)
  finally show ?thesis .
qed

lemma double_eq_0_iff: "double a = 0 \<longleftrightarrow> a = 0"
proof
  assume z: "double a = 0"
  show "a = 0"
  proof (rule ccontr)
    assume nz: "a \<noteq> 0"
    from double_error [of a] z have "\<bar>a\<bar> \<le> \<bar>a\<bar> / 2 ^ 53"
      by simp
    moreover have "\<bar>a\<bar> / 2 ^ 53 < \<bar>a\<bar>"
      using nz by simp
    ultimately show False
      by simp
  qed
next
  assume "a = 0"
  then show "double a = 0"
    by (simp add: double_def)
qed

lemma roundEven_of_int: "roundEven (real_of_int m) = m"
  by (simp add: roundEven_def)

lemma double_of_int:
  assumes "\<bar>n\<bar> \<le> 2 ^ 53"
  shows "double (real_of_int n) = real_of_int n"
proof (cases "n = 0")
  case True
  then show ?thesis by (simp add: double_def)
next
  case False
  define a where "a = real_of_int n"
  define e where "e = exponent \<bar>a\<bar>"
  have a1: "1 \<le> \<bar>a\<bar>"
    using False by (simp add: a_def flip: of_int_abs)
  have a53: "\<bar>a\<bar> \<le> 2 ^ 53"
  proof -
    have "real_of_int \<bar>n\<bar> \<le> real_of_int (2 ^ 53)"
      using assms by (simp only: of_int_le_iff)
    then show ?thesis
      by (simp add: a_def)
  qed
  have lo: "2 powi e \<le> \<bar>a\<bar>" and hi: "\<bar>a\<bar> < 2 powi (e + 1)"
    using exponent_bounds [of "\<bar>a\<bar>"] a1 by (simp_all add: e_def)
  have e0: "0 \<le> e"
  proof (rule ccontr)
    assume "\<not> 0 \<le> e"
    then have "e + 1 \<le> 0" by simp
    then have "(2::real) powi (e + 1) \<le> 2 powi 0"
      by (intro power_int_increasing) simp_all
    with hi a1 show False by simp
  qed
  have e53: "e \<le> 53"
  proof (rule ccontr)
    assume "\<not> e \<le> 53"
    then have "54 \<le> e" by simp
    then have "(2::real) powi 54 \<le> 2 powi e"
      by (intro power_int_increasing) simp_all
    with lo a53 show False by simp
  qed
  have "\<exists>m. a / 2 powi (e - 52) = real_of_int m"
  proof (cases "e = 53")
    case True
    have "2 ^ 53 \<le> \<bar>a\<bar>"
      using lo True by simp
    with a53 have "\<bar>a\<bar> = 2 ^ 53" by simp
    then have "a = 2 ^ 53 \<or> a = - (2 ^ 53)"
      by linarith
    then have "a / 2 powi (e - 52) = real_of_int (2 ^ 52)
               \<or> a / 2 powi (e - 52) = real_of_int (- (2 ^ 52))"
      using True by auto
    then show ?thesis by blast
  next
    case False
    with e53 have le: "e \<le> 52" by simp
    define k where "k = nat (52 - e)"
    have ek: "e - 52 = - int k"
      using le by (simp add: k_def)
    have "(2::real) powi (e - 52) = inverse (2 ^ k)"
      unfolding ek by (simp only: power_int_minus power_int_of_nat)
    then have "a / 2 powi (e - 52) = real_of_int (n * 2 ^ k)"
      by (simp add: a_def divide_inverse)
    then show ?thesis by blast
  qed
  then obtain m where m: "a / 2 powi (e - 52) = real_of_int m"
    by blast
  have "double a = real_of_int (roundEven (a / 2 powi (e - 52))) * 2 powi (e - 52)"
    using a1 by (auto simp: double_def Let_def e_def)
  also have "\<dots> = a / 2 powi (e - 52) * 2 powi (e - 52)"
    by (simp add: m roundEven_of_int)
  also have "\<dots> = a"
    by simp
  finally show ?thesis
    by (simp add: a_def)
qed

lemma foldl_double_exact:
  assumes "\<bar>a\<bar> + (\<Sum>s\<leftarrow>sts. \<bar>g s\<bar>) \<le> 2 ^ 53"
  shows "foldl (\<lambda>acc s. double (acc + double (real_of_int (g s)))) (real_of_int a) sts
           = real_of_int (a + (\<Sum>s\<leftarrow>sts. g s))"
  using assms
proof (induction sts arbitrary: a)
  case Nil
  then show ?case by simp
next
  case (Cons s sts)
  have nn: "0 \<le> (\<Sum>s\<leftarrow>sts. \<bar>g s\<bar>)"
    by (intro sum_list_nonneg) auto
  have g: "\<bar>g s\<bar> \<le> 2 ^ 53" and ag: "\<bar>a + g s\<bar> \<le> 2 ^ 53"
    using Cons.prems nn by simp_all
  have "double (real_of_int a + double (real_of_int (g s))) = real_of_int (a + g s)"
    using double_of_int [OF g] double_of_int [OF ag] by simp
  moreover have "\<bar>a + g s\<bar> + (\<Sum>s\<leftarrow>sts. \<bar>g s\<bar>) \<le> 2 ^ 53"
    using Cons.prems by simp
  ultimately show ?case
    using Cons.IH [of "a + g s"] by (simp add: add.assoc)
qed

lemma double_relative:
  "\<exists>e. \<bar>e\<bar> \<le> 1 / 2 ^ 53 \<and> double a = a * (1 + e)"
proof (cases "a = 0")
  case True
  then show ?thesis
    by (intro exI [of _ 0]) (simp add: double_def)
next
  case False
  define e where "e = (double a - a) / a"
  have "\<bar>e\<bar> = \<bar>double a - a\<bar> / \<bar>a\<bar>"
    by (simp add: e_def abs_divide)
  also have "\<dots> \<le> (\<bar>a\<bar> / 2 ^ 53) / \<bar>a\<bar>"
    by (intro divide_right_mono double_error) simp
  also have "\<dots> = 1 / 2 ^ 53"
    using False by simp
  finally have "\<bar>e\<bar> \<le> 1 / 2 ^ 53" .
  moreover have "double a = a * (1 + e)"
    using False by (simp add: e_def field_simps)
  ultimately show ?thesis
    by blast
qed

lemma ratio_near_one:
  fixes e1 e2 e3 e4 :: real
  assumes "\<bar>e1\<bar> \<le> 1 / 2 ^ 53" "\<bar>e2\<bar> \<le> 1 / 2 ^ 53" "\<bar>e3\<bar> \<le> 1 / 2 ^ 53" "\<bar>e4\<bar> \<le> 1 / 2 ^ 53"
  shows "\<bar>(1 + e3) * (1 + e4) / ((1 + e1) * (1 + e2)) - 1\<bar> \<le> 1 / 2 ^ 50"
proof -
  define u :: real where "u = 1 / 2 ^ 53"
  have u: "0 < 1 - u" "0 \<le> 1 + u"
    by (simp_all add: u_def)
  have b: "1 - u \<le> 1 + e1" "1 + e1 \<le> 1 + u" "1 - u \<le> 1 + e2" "1 + e2 \<le> 1 + u"
    "1 - u \<le> 1 + e3" "1 + e3 \<le> 1 + u" "1 - u \<le> 1 + e4" "1 + e4 \<le> 1 + u"
    using assms by (simp_all add: u_def abs_le_iff)
  define A where "A = (1 + e3) * (1 + e4)"
  define B where "B = (1 + e1) * (1 + e2)"
  have Blo: "(1 - u) * (1 - u) \<le> B"
    unfolding B_def using b u by (intro mult_mono) simp_all
  have Bhi: "B \<le> (1 + u) * (1 + u)"
    unfolding B_def using b u by (intro mult_mono) simp_all
  have Alo: "(1 - u) * (1 - u) \<le> A"
    unfolding A_def using b u by (intro mult_mono) simp_all
  have Ahi: "A \<le> (1 + u) * (1 + u)"
    unfolding A_def using b u by (intro mult_mono) simp_all
  have "0 < (1 - u) * (1 - u)"
    using u by (intro mult_pos_pos)
  with Blo have Bpos: "0 < B"
    by linarith
  have "\<bar>A - B\<bar> \<le> (1 + u) * (1 + u) - (1 - u) * (1 - u)"
    using Alo Ahi Blo Bhi by linarith
  also have "\<dots> = 4 * u"
    by (simp add: algebra_simps)
  finally have d: "\<bar>A - B\<bar> \<le> 4 * u" .
  have "\<bar>A / B - 1\<bar> = \<bar>A - B\<bar> / B"
    using Bpos by (simp add: field_simps)
  also have "\<dots> \<le> 4 * u / ((1 - u) * (1 - u))"
    using d Blo u Bpos by (intro frac_le) simp_all
  also have "\<dots> \<le> 1 / 2 ^ 50"
    by (simp add: u_def field_simps)
  finally show ?thesis
    by (simp add: A_def B_def)
qed

lemma floor_near:
  fixes p q :: real
  assumes "\<bar>p - q\<bar> \<le> 1 / 2"
  shows "\<bar>real_of_int \<lfloor>p\<rfloor> - real_of_int \<lfloor>q\<rfloor>\<bar> \<le> 1"
proof -
  have "\<lfloor>p\<rfloor> \<le> \<lfloor>q\<rfloor> + 1" "\<lfloor>q\<rfloor> \<le> \<lfloor>p\<rfloor> + 1"
    using assms by linarith+
  then have "\<bar>\<lfloor>p\<rfloor> - \<lfloor>q\<rfloor>\<bar> \<le> 1"
    by linarith
  then have "real_of_int \<bar>\<lfloor>p\<rfloor> - \<lfloor>q\<rfloor>\<bar> \<le> real_of_int 1"
    by (simp only: of_int_le_iff)
  then show ?thesis
    by simp
qed

section \<open>Capacity\<close>

lemma spacing_nonzero:
  "carSz * packing \<noteq> 0 \<Longrightarrow> double (double (carSz * carSpacingDefault) * packing) \<noteq> 0"
  by (simp add: double_eq_0_iff carSpacingDefault_def)

lemma computeMaxCars_returns:
  assumes "carSz * packing \<noteq> 0"
  shows "\<exists>capacity. computeMaxCars vis carSz packing cap = Inr capacity"
  using spacing_nonzero [OF assms] by (simp add: computeMaxCars_def Let_def)

lemma computeMaxCars_rounded:
  assumes nz: "carSz * packing \<noteq> 0"
    and bound: "(\<Sum>st\<leftarrow>streets vis. \<bar>capacityRounded_spec carSz packing st\<bar>) \<le> 2 ^ 53"
  shows "computeMaxCars vis carSz packing cap =
           Inr (networkCapacityRounded_spec (streets vis) carSz packing cap)"
proof -
  let ?g = "capacityRounded_spec carSz packing"
  have "foldl (\<lambda>acc st. double (acc + double (real_of_int (?g st)))) (real_of_int 0) (streets vis)
          = real_of_int (0 + (\<Sum>st\<leftarrow>streets vis. ?g st))"
    by (rule foldl_double_exact) (use bound in simp)
  then have "foldl (\<lambda>acc st. double (acc + double (real_of_int
                 \<lfloor>double (totalDistance st * reciprocalSpacing carSz packing)\<rfloor> + 1))) 0 (streets vis)
          = real_of_int (\<Sum>st\<leftarrow>streets vis. ?g st)"
    by (simp add: capacityRounded_spec_def)
  then show ?thesis
    using spacing_nonzero [OF nz]
    by (simp add: computeMaxCars_def networkCapacityRounded_spec_def Let_def min_def
        reciprocalSpacing_def)
qed

lemma getNumberOfCars_targetCount: "getNumberOfCars c d = targetCount_spec c d"
  by (cases d) (simp_all add: getNumberOfCars_def targetCount_spec_def)

lemma reciprocalSpacing_1: "reciprocalSpacing 1 10 = 5764607523034235 / 2 ^ 56"
  by (simp add: reciprocalSpacing_def carSpacingDefault_def double_eval)

lemma capacityRounded_streetA_1: "capacityRounded_spec 1 10 streetA = 9"
  by (simp add: capacityRounded_spec_def reciprocalSpacing_1 streetA_def double_eval)

lemma reciprocalSpacing_2: "reciprocalSpacing 2 10 = 5764607523034235 / 2 ^ 57"
  by (simp add: reciprocalSpacing_def carSpacingDefault_def double_eval)

lemma capacityRounded_streetA_2: "capacityRounded_spec 2 10 streetA = 5"
  by (simp add: capacityRounded_spec_def reciprocalSpacing_2 streetA_def double_eval)

lemma reciprocalSpacing_multiple: "reciprocalSpacing (17 / 4) 10 = 5425512962855750 / 2 ^ 58"
  by (simp add: reciprocalSpacing_def carSpacingDefault_def double_eval)

lemma capacityRounded_multiple: "capacityRounded_spec (17 / 4) 10 streetMultiple = 1"
  by (simp add: capacityRounded_spec_def reciprocalSpacing_multiple streetMultiple_def double_eval)

lemma computeMaxCars_streetA_1:
  "streets vis = [streetA] \<Longrightarrow> computeMaxCars vis 1 10 9000 = Inr 9"
  using computeMaxCars_rounded [of 1 10 vis 9000]
  by (simp add: networkCapacityRounded_spec_def capacityRounded_streetA_1)

lemma computeMaxCars_streetA_2:
  "streets vis = [streetA] \<Longrightarrow> computeMaxCars vis 2 10 9000 = Inr 5"
  using computeMaxCars_rounded [of 2 10 vis 9000]
  by (simp add: networkCapacityRounded_spec_def capacityRounded_streetA_2)

lemma computeMaxCars_multiple:
  "streets vis = [streetMultiple] \<Longrightarrow> computeMaxCars vis (17 / 4) 10 9000 = Inr 1"
  using computeMaxCars_rounded [of "17 / 4" 10 vis 9000]
  by (simp add: networkCapacityRounded_spec_def capacityRounded_multiple)

lemma capacity_product_error:
  assumes nz: "carSz * packing \<noteq> 0"
  shows "\<bar>double (totalDistance st * reciprocalSpacing carSz packing)
           - totalDistance st / (carSz * carSpacingDefault * packing)\<bar>
         \<le> \<bar>totalDistance st / (carSz * carSpacingDefault * packing)\<bar> / 2 ^ 50"
proof -
  define x1 where "x1 = carSz * carSpacingDefault"
  define T where "T = totalDistance st"
  have x1: "x1 \<noteq> 0" and pk: "packing \<noteq> 0"
    using nz by (simp_all add: x1_def carSpacingDefault_def)
  obtain e1 where e1: "\<bar>e1\<bar> \<le> 1 / 2 ^ 53" "double x1 = x1 * (1 + e1)"
    using double_relative by blast
  obtain e2 where e2: "\<bar>e2\<bar> \<le> 1 / 2 ^ 53"
    "double (double x1 * packing) = double x1 * packing * (1 + e2)"
    using double_relative by blast
  define c where "c = double (double x1 * packing)"
  obtain e3 where e3: "\<bar>e3\<bar> \<le> 1 / 2 ^ 53" "double (1 / c) = 1 / c * (1 + e3)"
    using double_relative by blast
  obtain e4 where e4: "\<bar>e4\<bar> \<le> 1 / 2 ^ 53"
    "double (T * double (1 / c)) = T * double (1 / c) * (1 + e4)"
    using double_relative by blast
  define r where "r = (1 + e3) * (1 + e4) / ((1 + e1) * (1 + e2))"
  define q where "q = T / (x1 * packing)"
  have p1: "1 + e1 \<noteq> 0" "1 + e2 \<noteq> 0"
    using e1(1) e2(1) by (simp_all add: abs_le_iff)
  have "c = double x1 * packing * (1 + e2)"
    unfolding c_def by (rule e2(2))
  then have c: "c = x1 * packing * ((1 + e1) * (1 + e2))"
    by (simp add: e1(2))
  have "double (T * double (1 / c)) = T * double (1 / c) * (1 + e4)"
    by (rule e4(2))
  also have "\<dots> = T * (1 / c * (1 + e3)) * (1 + e4)"
    by (simp only: e3(2))
  also have "\<dots> = q * r"
    using x1 pk p1 by (simp add: c q_def r_def)
  finally have "double (T * double (1 / c)) = q * r" .
  then have "\<bar>double (T * double (1 / c)) - q\<bar> = \<bar>q\<bar> * \<bar>r - 1\<bar>"
    by (simp add: algebra_simps flip: abs_mult)
  also have "\<dots> \<le> \<bar>q\<bar> * (1 / 2 ^ 50)"
    unfolding r_def
    by (intro mult_left_mono ratio_near_one e1 e2 e3 e4) simp
  finally show ?thesis
    by (simp add: reciprocalSpacing_def c_def x1_def T_def q_def)
qed

lemma capacityRounded_near:
  assumes nz: "carSz * packing \<noteq> 0"
    and small: "\<bar>totalDistance st / (carSz * carSpacingDefault * packing)\<bar> \<le> 2 ^ 49"
  shows "\<bar>real_of_int (capacityRounded_spec carSz packing st) - capacity_spec carSz packing st\<bar> \<le> 1"
proof -
  let ?q = "totalDistance st / (carSz * carSpacingDefault * packing)"
  let ?p = "double (totalDistance st * reciprocalSpacing carSz packing)"
  have "\<bar>?p - ?q\<bar> \<le> \<bar>?q\<bar> / 2 ^ 50"
    by (rule capacity_product_error [OF nz])
  also have "\<dots> \<le> 2 ^ 49 / 2 ^ 50"
    using small by (intro divide_right_mono) simp_all
  finally have "\<bar>?p - ?q\<bar> \<le> 1 / 2"
    by simp
  from floor_near [OF this] show ?thesis
    by (simp add: capacityRounded_spec_def capacity_spec_def)
qed

text \<open>
  With a car size of zero the reciprocal is \<open>+Infinity\<close>, each street of positive length adds
  \<open>+Infinity\<close>, and the cap is returned.
\<close>

lemma computeMaxCars_size_zero:
  assumes "streets vis \<noteq> []" "list_all (\<lambda>st. totalDistance st > 0) (streets vis)" "0 \<le> packing"
  shows "computeMaxCars vis 0 packing cap = Inr cap"
  using assms by (simp add: computeMaxCars_def double_def)

section \<open>Position and heading\<close>

lemma setDirectionOnStreet_ok:
  assumes "2 \<le> length (points st)" "0 \<le> segment c"
  shows "setDirectionOnStreet c (Some st) = Inr (c\<lparr>direction := Some (streetHeading st (segment c))\<rparr>)"
  using assms by (auto simp: setDirectionOnStreet_def streetHeading_def elemAt_def Let_def)

lemma setPositionOnStreet_eq:
  assumes "length (points st) = length (distance st) + 1"
    and "0 \<le> segment c" "segment c < int (length (distance st))"
    and "distance st ! nat (segment c) \<noteq> 0"
  shows "setPositionOnStreet c st =
           Inr (c\<lparr>x := x3 (pointAt st (nat (segment c)) (segmentDist c)),
                  y := y3 (pointAt st (nat (segment c)) (segmentDist c)),
                  z := z3 (pointAt st (nat (segment c)) (segmentDist c))\<rparr>)"
proof -
  have "nat (segment c + 1) = Suc (nat (segment c))"
    using assms(2) by simp
  then show ?thesis
    using assms
    by (simp add: setPositionOnStreet_def pointAt_def elemAt_def Let_def minus3d_def
        plusScaled_def)
qed

lemma interpolated_pointAt:
  assumes "0 \<le> segment c" "segmentDist c = off" "nat (segment c) = k"
    "x c = x3 (pointAt st k off)" "y c = y3 (pointAt st k off)" "z c = z3 (pointAt st k off)"
  shows "interpolated st c"
proof -
  have "nat (segment c + 1) = Suc (nat (segment c))"
    using assms(1) by simp
  then show ?thesis
    using assms by (simp add: interpolated_def pointAt_def Let_def)
qed




section \<open>Kinematics\<close>


lemma accelerate_speed_pos:
  assumes "0 \<le> speed car" "0 < Street.speed st" "0 < t"
  shows "0 < speed (accelerate car st t)"
  using assms by (auto simp: accelerate_def Let_def accelerationDefault_def)


lemma accelerate_approach:
  assumes "0 \<le> t"
  shows "accelerate car st t = car\<lparr>speed := approachSpeed (speed car) (Street.speed st) t\<rparr>"
  using assms
  by (auto simp: accelerate_def approachSpeed_def Let_def accelerationDefault_def min_def max_def)

lemma locate_Some_bounds:
  "locate ls d = Some (k, off) \<Longrightarrow> k < length ls \<and> off < ls ! k
     \<and> off = d - sum_list (take k ls)"
proof (induction ls arbitrary: d k off)
  case Nil
  then show ?case by simp
next
  case (Cons l ls)
  show ?case
  proof (cases "d < l")
    case True
    with Cons.prems show ?thesis by simp
  next
    case False
    with Cons.prems obtain k' where k': "locate ls (d - l) = Some (k', off)" "k = Suc k'"
      by (auto split: option.splits)
    from Cons.IH [OF k'(1)] k'(2) show ?thesis
      by simp
  qed
qed

lemma locate_None_iff:
  assumes "\<forall>l \<in> set ls. 0 \<le> l" "0 \<le> d"
  shows "locate ls d = None \<longleftrightarrow> sum_list ls \<le> d"
  using assms
proof (induction ls arbitrary: d)
  case Nil
  then show ?case by simp
next
  case (Cons l ls)
  have nn: "0 \<le> sum_list ls"
    using Cons.prems by (intro sum_list_nonneg) simp
  show ?case
  proof (cases "d < l")
    case True
    with nn show ?thesis by simp
  next
    case False
    have "locate (l # ls) d = None \<longleftrightarrow> locate ls (d - l) = None"
      using False by (auto split: option.splits)
    also have "\<dots> \<longleftrightarrow> sum_list ls \<le> d - l"
      using Cons.IH [of "d - l"] Cons.prems False by simp
    finally show ?thesis
      by auto
  qed
qed

lemma advanceSegments_locate:
  assumes "0 \<le> seg" "seg \<le> int (length ds)"
  shows "advanceSegments ds seg d =
           (case locate (drop (nat seg) ds) d of
              Some (k, off) \<Rightarrow> (seg + int k, off)
            | None \<Rightarrow> (int (length ds), d - sum_list (drop (nat seg) ds)))"
  using assms
proof (induction ds seg d rule: advanceSegments.induct)
  case (1 ds seg d)
  show ?case
  proof (cases "seg < int (length ds)")
    case False
    with "1.prems" have "seg = int (length ds)" by simp
    then show ?thesis
      by (subst advanceSegments.simps) simp
  next
    case True
    have lt: "nat seg < length ds"
      using True "1.prems" by linarith
    have dr: "drop (nat seg) ds = ds ! nat seg # drop (Suc (nat seg)) ds"
      by (rule Cons_nth_drop_Suc [OF lt, symmetric])
    have n2: "nat (seg + 1) = Suc (nat seg)"
      using "1.prems" by linarith
    show ?thesis
    proof (cases "d \<ge> ds ! nat seg")
      case False
      then show ?thesis
        by (subst advanceSegments.simps) (simp add: dr)
    next
      case ge: True
      have c: "0 \<le> seg \<and> seg < int (length ds) \<and> ds ! nat seg \<le> d"
        using True "1.prems" ge by simp
      have "advanceSegments ds seg d = advanceSegments ds (seg + 1) (d - ds ! nat seg)"
        using c by (subst advanceSegments.simps) simp
      also have "\<dots> = (case locate (drop (nat (seg + 1)) ds) (d - ds ! nat seg) of
              Some (k, off) \<Rightarrow> (seg + 1 + int k, off)
            | None \<Rightarrow> (int (length ds), d - ds ! nat seg - sum_list (drop (nat (seg + 1)) ds)))"
        using "1.IH" [OF c] True "1.prems" by simp
      also have "\<dots> = (case locate (drop (nat seg) ds) d of
              Some (k, off) \<Rightarrow> (seg + int k, off)
            | None \<Rightarrow> (int (length ds), d - sum_list (drop (nat seg) ds)))"
      proof -
        have e: "locate (drop (nat seg) ds) d =
                   (case locate (drop (Suc (nat seg)) ds) (d - ds ! nat seg) of
                      None \<Rightarrow> None | Some (k, off) \<Rightarrow> Some (Suc k, off))"
          using ge by (subst dr) simp
        have s: "sum_list (drop (nat seg) ds) = ds ! nat seg + sum_list (drop (Suc (nat seg)) ds)"
          by (subst dr) simp
        show ?thesis
          by (simp add: e s n2 split: option.splits)
      qed
      finally show ?thesis .
    qed
  qed
qed


lemma locate_off_nonneg: "0 \<le> d \<Longrightarrow> locate ls d = Some (k, off) \<Longrightarrow> 0 \<le> off"
proof (induction ls arbitrary: d k)
  case Nil
  then show ?case by simp
next
  case (Cons l ls)
  show ?case
  proof (cases "d < l")
    case True
    with Cons.prems show ?thesis by simp
  next
    case False
    with Cons.prems obtain k' where "locate ls (d - l) = Some (k', off)"
      by (auto split: option.splits)
    with Cons.IH [of "d - l" k'] False show ?thesis
      by simp
  qed
qed

lemma locate_None_overshoot: "0 \<le> d \<Longrightarrow> locate ls d = None \<Longrightarrow> sum_list ls \<le> d"
proof (induction ls arbitrary: d)
  case Nil
  then show ?case by simp
next
  case (Cons l ls)
  from Cons.prems have ge: "\<not> d < l" and n: "locate ls (d - l) = None"
    by (auto split: if_splits option.splits)
  from Cons.IH [of "d - l"] ge n show ?case
    by simp
qed


lemma moveCarOnStreet_same_segment:
  assumes "elemAt (distance st) (segment (afterDrive car st t)) = Some d"
    and "segmentDist (afterDrive car st t) < d"
    and "setPositionOnStreet (afterDrive car st t) st = Inr c"
  shows "moveCarOnStreet car st t = Inr (- 1, c)"
  using assms by (simp add: moveCarOnStreet_def afterDrive_def Let_def)

lemma moveCarOnStreet_later_segment:
  assumes "elemAt (distance st) (segment (afterDrive car st t)) = Some d"
    and "\<not> segmentDist (afterDrive car st t) < d"
    and "advanceSegments (distance st) (segment (afterDrive car st t) + 1)
           (segmentDist (afterDrive car st t) - d) = (seg', rest)"
    and "seg' < int (length (distance st))"
    and "setPositionOnStreet ((afterDrive car st t)\<lparr>segmentDist := rest, segment := seg'\<rparr>) st = Inr c"
    and "setDirectionOnStreet c (Some st) = Inr c'"
  shows "moveCarOnStreet car st t = Inr (- 1, c')"
  using assms by (simp add: moveCarOnStreet_def afterDrive_def Let_def)

lemma moveCarOnStreet_street_end:
  assumes "elemAt (distance st) (segment (afterDrive car st t)) = Some d"
    and "\<not> segmentDist (afterDrive car st t) < d"
    and "advanceSegments (distance st) (segment (afterDrive car st t) + 1)
           (segmentDist (afterDrive car st t) - d) = (seg', rest)"
    and "\<not> seg' < int (length (distance st))"
    and "elemAt (points st) seg' = Some p"
    and "speed (afterDrive car st t) \<noteq> 0"
    and "elemAt (distance st) (seg' - 1) = Some l"
    and "setDirectionOnStreet
           ((afterDrive car st t)\<lparr>segmentDist := rest, segment := seg',
              x := x3 p, y := y3 p, z := z3 p, segmentDist := l\<rparr>) (Some st) = Inr c"
  shows "moveCarOnStreet car st t = Inr (rest / speed (afterDrive car st t), c)"
  using assms by (simp add: moveCarOnStreet_def afterDrive_def Let_def)

lemma drive_carA: "moveCarOnStreet carA streetA 1 = Inr (1 / 2, carAtEnd)"
  by (simp add: eval_defs advanceSegments.simps carA_def streetA_def carAtEnd_def)

lemma drive_carNew: "moveCarOnStreet carNew streetA 1 = Inr (- 1, carDriven)"
  by (simp add: eval_defs carNew_def streetA_def carDriven_def)

lemma afterDrive_eq:
  assumes "0 \<le> t"
  shows "afterDrive car st t =
           car\<lparr>speed := approachSpeed (speed car) (Street.speed st) t,
                segmentDist := travelled car st t\<rparr>"
  by (simp add: afterDrive_def accelerate_approach [OF assms] travelled_def)

lemma drive_carA_bend: "moveCarOnStreet carA streetBend 1 = Inr (- 1, carPastBend)"
  by (simp add: eval_defs advanceSegments.simps carA_def streetBend_def carPastBend_def)

text \<open>
  Claim C6. A particle with speed \<open>\<ge> 0\<close> is on a segment of a street with a positive speed
  limit and is moved for a time \<open>t > 0\<close>. Then \<open>moveCarOnStreet\<close> returns what the
  specification describes. The distance travelled from the start of the current segment is
  the old \<open>segmentDist\<close> plus \<open>t\<close> times the new speed. If a segment ahead absorbs it,
  the result is \<open>-1\<close> and the particle is on that segment, at the travelled distance less
  the lengths of the segments passed, which is below the segment's length, with its position
  interpolated linearly between the end points of the segment. If the segments are used up,
  the result is the leftover time, the distance beyond the end of the street divided by the
  speed, which is \<open>\<ge> 0\<close>; the particle is at the last point of the street, \<open>segmentDist\<close>
  is the length of the last segment, and the heading is that of the last two points. On a
  street whose lengths are not negative, the segments are used up exactly when the travelled
  distance reaches the length of the street ahead.
\<close>
theorem moveCarOnStreet_outcomes:
  assumes sp: "0 \<le> speed car" and lim: "0 < Street.speed st" and t: "0 < t"
    and wf: "length (points st) = length (distance st) + 1"
    and seg: "0 \<le> segment car" "segment car < int (length (distance st))"
    and sd: "0 \<le> segmentDist car"
  shows "moveCarOnStreet car st t = Inr (advanceOnStreet_spec car st t)
    \<and> 0 < approachSpeed (speed car) (Street.speed st) t
    \<and> 0 \<le> travelled car st t
    \<and> (\<forall>k off. locate (ahead car st) (travelled car st t) = Some (k, off) \<longrightarrow>
          fst (advanceOnStreet_spec car st t) = - 1
          \<and> segment (snd (advanceOnStreet_spec car st t)) = segment car + int k
          \<and> segmentDist (snd (advanceOnStreet_spec car st t)) = off
          \<and> nat (segment car) + k < length (distance st)
          \<and> off = travelled car st t - sum_list (take k (ahead car st))
          \<and> 0 \<le> off \<and> off < distance st ! (nat (segment car) + k)
          \<and> interpolated st (snd (advanceOnStreet_spec car st t)))
    \<and> (locate (ahead car st) (travelled car st t) = None \<longrightarrow>
          fst (advanceOnStreet_spec car st t)
            = (travelled car st t - sum_list (ahead car st))
                / approachSpeed (speed car) (Street.speed st) t
          \<and> 0 \<le> fst (advanceOnStreet_spec car st t)
          \<and> segment (snd (advanceOnStreet_spec car st t)) = int (length (distance st))
          \<and> atPoint (last (points st)) (snd (advanceOnStreet_spec car st t))
          \<and> segmentDist (snd (advanceOnStreet_spec car st t)) = last (distance st)
          \<and> direction (snd (advanceOnStreet_spec car st t))
               = Some (streetHeading st (int (length (distance st)))))
    \<and> ((\<forall>l \<in> set (distance st). 0 \<le> l) \<longrightarrow>
          (locate (ahead car st) (travelled car st t) = None
             \<longleftrightarrow> sum_list (ahead car st) \<le> travelled car st t))"
proof -
  define v where "v = approachSpeed (speed car) (Street.speed st) t"
  define D where "D = travelled car st t"
  define n where "n = nat (segment car)"
  define d0 where "d0 = distance st ! n"
  have t0: "0 \<le> t"
    using t by simp
  have v: "0 < v"
    using accelerate_speed_pos [OF sp lim t] by (simp add: accelerate_approach [OF t0] v_def)
  have D0: "0 \<le> D"
    using sd t v by (simp add: D_def travelled_def v_def [symmetric])
  have ad: "afterDrive car st t = car\<lparr>speed := v, segmentDist := D\<rparr>"
    by (simp add: afterDrive_eq [OF t0] v_def D_def)
  have nlt: "n < length (distance st)"
    using seg by (simp add: n_def)
  have sn: "segment car = int n"
    using seg by (simp add: n_def)
  have ah: "ahead car st = d0 # drop (Suc n) (distance st)"
    unfolding ahead_def n_def [symmetric] d0_def
    by (rule Cons_nth_drop_Suc [OF nlt, symmetric])
  have ed: "elemAt (distance st) (segment (afterDrive car st t)) = Some d0"
    using nlt by (simp add: ad sn elemAt_def d0_def)
  have np: "2 \<le> length (points st)"
    using wf nlt by linarith
  \<comment> \<open>the equation\<close>
  have eq: "moveCarOnStreet car st t = Inr (advanceOnStreet_spec car st t)"
  proof (cases "D < d0")
    case True
    have loc: "locate (ahead car st) D = Some (0, D)"
      using True by (simp add: ah)
    have nz: "distance st ! nat (segment (afterDrive car st t)) \<noteq> 0"
      using True D0 by (simp add: ad sn d0_def)
    have pos: "setPositionOnStreet (afterDrive car st t) st
                 = Inr (car\<lparr>speed := v, segmentDist := D,
                          x := x3 (pointAt st n D), y := y3 (pointAt st n D),
                          z := z3 (pointAt st n D)\<rparr>)"
      using setPositionOnStreet_eq [OF wf _ _ nz] nlt by (simp add: ad sn)
    have "moveCarOnStreet car st t
            = Inr (- 1, car\<lparr>speed := v, segmentDist := D,
                          x := x3 (pointAt st n D), y := y3 (pointAt st n D),
                          z := z3 (pointAt st n D)\<rparr>)"
      by (rule moveCarOnStreet_same_segment [OF ed _ pos]) (simp add: ad True)
    also have "(- 1, car\<lparr>speed := v, segmentDist := D,
                          x := x3 (pointAt st n D), y := y3 (pointAt st n D),
                          z := z3 (pointAt st n D)\<rparr>) = advanceOnStreet_spec car st t"
      using loc sn
      by (simp add: advanceOnStreet_spec_def Let_def v_def [symmetric] D_def [symmetric]
          n_def [symmetric])
    finally show ?thesis .
  next
    case False
    define tl where "tl = drop (Suc n) (distance st)"
    have n1: "nat (int n + 1) = Suc n"
      by simp
    have adv: "advanceSegments (distance st) (segment (afterDrive car st t) + 1)
                 (segmentDist (afterDrive car st t) - d0)
               = (case locate tl (D - d0) of
                    Some (k, off) \<Rightarrow> (int n + 1 + int k, off)
                  | None \<Rightarrow> (int (length (distance st)), D - d0 - sum_list tl))"
      unfolding tl_def
      using advanceSegments_locate [of "int n + 1" "distance st" "D - d0", unfolded n1] nlt
      by (simp add: ad sn)
    have nd: "\<not> segmentDist (afterDrive car st t) < d0"
      using False by (simp add: ad)
    show ?thesis
    proof (cases "locate tl (D - d0)")
      case (Some p)
      obtain k off where p: "p = (k, off)"
        by (cases p)
      have lk: "locate tl (D - d0) = Some (k, off)"
        using Some p by simp
      have loc: "locate (ahead car st) D = Some (Suc k, off)"
        using False lk by (simp add: ah tl_def [symmetric])
      from locate_Some_bounds [OF lk] have kb: "k < length tl" "off < tl ! k"
        by simp_all
      have off0: "0 \<le> off"
        using locate_off_nonneg [OF _ lk] False by simp
      have kl: "Suc n + k < length (distance st)"
        using kb(1) by (simp add: tl_def)
      have tk: "tl ! k = distance st ! (Suc n + k)"
        using kl by (simp add: tl_def)
      have i3: "int n + 1 + int k = int (Suc n + k)"
        by simp
      define car3 where "car3 = (afterDrive car st t)\<lparr>segmentDist := off,
                                   segment := int (Suc n + k)\<rparr>"
      have f3: "segment car3 = int (Suc n + k)" "segmentDist car3 = off"
        by (simp_all add: car3_def)
      have "distance st ! (Suc n + k) \<noteq> 0"
        using kb(2) off0 tk by simp
      then have nz: "distance st ! nat (segment car3) \<noteq> 0"
        unfolding f3 nat_int .
      have s3: "0 \<le> segment car3" "segment car3 < int (length (distance st))"
        unfolding f3 using kl by simp_all
      have pos: "setPositionOnStreet car3 st
                   = Inr (car3\<lparr>x := x3 (pointAt st (Suc n + k) off),
                                y := y3 (pointAt st (Suc n + k) off),
                                z := z3 (pointAt st (Suc n + k) off)\<rparr>)"
        using setPositionOnStreet_eq [OF wf s3 nz] unfolding f3 nat_int .
      define c where "c = car3\<lparr>x := x3 (pointAt st (Suc n + k) off),
                                y := y3 (pointAt st (Suc n + k) off),
                                z := z3 (pointAt st (Suc n + k) off)\<rparr>"
      have sc: "segment c = int (Suc n + k)"
        by (simp add: c_def car3_def)
      have dir: "setDirectionOnStreet c (Some st)
                   = Inr (c\<lparr>direction := Some (streetHeading st (int (Suc n + k)))\<rparr>)"
        using setDirectionOnStreet_ok [OF np, of c] unfolding sc by simp
      have "moveCarOnStreet car st t
              = Inr (- 1, c\<lparr>direction := Some (streetHeading st (int (Suc n + k)))\<rparr>)"
      proof (rule moveCarOnStreet_later_segment [OF ed nd])
        show "advanceSegments (distance st) (segment (afterDrive car st t) + 1)
                (segmentDist (afterDrive car st t) - d0) = (int (Suc n + k), off)"
          unfolding adv lk i3 [symmetric] by simp
        show "int (Suc n + k) < int (length (distance st))"
          using kl by simp
        show "setPositionOnStreet
                ((afterDrive car st t)\<lparr>segmentDist := off, segment := int (Suc n + k)\<rparr>) st
                = Inr c"
          using pos unfolding car3_def c_def .
        show "setDirectionOnStreet c (Some st)
                = Inr (c\<lparr>direction := Some (streetHeading st (int (Suc n + k)))\<rparr>)"
          by (rule dir)
      qed
      also have "(- 1, c\<lparr>direction := Some (streetHeading st (int (Suc n + k)))\<rparr>)
                   = advanceOnStreet_spec car st t"
        using loc
        by (simp add: advanceOnStreet_spec_def Let_def v_def [symmetric] D_def [symmetric]
            n_def [symmetric] c_def car3_def ad)
      finally show ?thesis .
    next
      case None
      have loc: "locate (ahead car st) D = None"
        using False None by (simp add: ah tl_def [symmetric])
      have sm: "sum_list (ahead car st) = d0 + sum_list tl"
        by (simp add: ah tl_def)
      have ne: "distance st \<noteq> []" "points st \<noteq> []"
        using nlt wf by auto
      have ep: "elemAt (points st) (int (length (distance st))) = Some (last (points st))"
        using wf ne by (simp add: elemAt_def last_conv_nth)
      have "nat (int (length (distance st)) - 1) = length (distance st) - 1"
        by simp
      then have el: "elemAt (distance st) (int (length (distance st)) - 1)
                       = Some (last (distance st))"
        using ne by (simp add: elemAt_def last_conv_nth)
      define c where "c = (afterDrive car st t)\<lparr>segmentDist := D - d0 - sum_list tl,
                              segment := int (length (distance st)),
                              x := x3 (last (points st)), y := y3 (last (points st)),
                              z := z3 (last (points st)), segmentDist := last (distance st)\<rparr>"
      have dir: "setDirectionOnStreet c (Some st)
                   = Inr (c\<lparr>direction := Some (streetHeading st (int (length (distance st))))\<rparr>)"
        using setDirectionOnStreet_ok [OF np, of c] by (simp add: c_def)
      have "moveCarOnStreet car st t
              = Inr ((D - d0 - sum_list tl) / speed (afterDrive car st t),
                     c\<lparr>direction := Some (streetHeading st (int (length (distance st))))\<rparr>)"
      proof (rule moveCarOnStreet_street_end [OF ed nd _ _ ep _ el])
        show "advanceSegments (distance st) (segment (afterDrive car st t) + 1)
                (segmentDist (afterDrive car st t) - d0)
                = (int (length (distance st)), D - d0 - sum_list tl)"
          using adv None by simp
        show "\<not> int (length (distance st)) < int (length (distance st))"
          by simp
        show "speed (afterDrive car st t) \<noteq> 0"
          using v by (simp add: ad)
        show "setDirectionOnStreet
                ((afterDrive car st t)\<lparr>segmentDist := D - d0 - sum_list tl,
                   segment := int (length (distance st)),
                   x := x3 (last (points st)), y := y3 (last (points st)),
                   z := z3 (last (points st)), segmentDist := last (distance st)\<rparr>) (Some st)
                = Inr (c\<lparr>direction := Some (streetHeading st (int (length (distance st))))\<rparr>)"
          using dir by (simp add: c_def)
      qed
      also have "((D - d0 - sum_list tl) / speed (afterDrive car st t),
                     c\<lparr>direction := Some (streetHeading st (int (length (distance st))))\<rparr>)
                   = advanceOnStreet_spec car st t"
        using loc sm
        by (simp add: advanceOnStreet_spec_def Let_def v_def [symmetric] D_def [symmetric]
            c_def ad algebra_simps)
      finally show ?thesis .
    qed
  qed
  \<comment> \<open>what the two outcomes are\<close>
  have some: "fst (advanceOnStreet_spec car st t) = - 1
          \<and> segment (snd (advanceOnStreet_spec car st t)) = segment car + int k
          \<and> segmentDist (snd (advanceOnStreet_spec car st t)) = off
          \<and> nat (segment car) + k < length (distance st)
          \<and> off = travelled car st t - sum_list (take k (ahead car st))
          \<and> 0 \<le> off \<and> off < distance st ! (nat (segment car) + k)
          \<and> interpolated st (snd (advanceOnStreet_spec car st t))"
    if loc: "locate (ahead car st) (travelled car st t) = Some (k, off)" for k off
  proof -
    from locate_Some_bounds [OF loc] have b: "k < length (ahead car st)"
      "off < ahead car st ! k" "off = travelled car st t - sum_list (take k (ahead car st))"
      by simp_all
    have kl: "n + k < length (distance st)"
      using b(1) by (simp add: ahead_def n_def)
    have ak: "ahead car st ! k = distance st ! (n + k)"
      using kl by (simp add: ahead_def n_def)
    have off0: "0 \<le> off"
      using locate_off_nonneg [OF _ loc] D0 by (simp add: D_def)
    have sg: "segment (snd (advanceOnStreet_spec car st t)) = int (n + k)"
      by (simp add: advanceOnStreet_spec_def Let_def loc n_def)
    have ip: "interpolated st (snd (advanceOnStreet_spec car st t))"
    proof (rule interpolated_pointAt [where off = off and k = "n + k"])
      show "0 \<le> segment (snd (advanceOnStreet_spec car st t))"
        unfolding sg by simp
      show "nat (segment (snd (advanceOnStreet_spec car st t))) = n + k"
        unfolding sg by simp
      show "segmentDist (snd (advanceOnStreet_spec car st t)) = off"
        by (simp add: advanceOnStreet_spec_def Let_def loc)
      show "x (snd (advanceOnStreet_spec car st t)) = x3 (pointAt st (n + k) off)"
        "y (snd (advanceOnStreet_spec car st t)) = y3 (pointAt st (n + k) off)"
        "z (snd (advanceOnStreet_spec car st t)) = z3 (pointAt st (n + k) off)"
        by (simp_all add: advanceOnStreet_spec_def Let_def loc n_def)
    qed
    have "fst (advanceOnStreet_spec car st t) = - 1"
      "segmentDist (snd (advanceOnStreet_spec car st t)) = off"
      by (simp_all add: advanceOnStreet_spec_def Let_def loc)
    moreover have "segment (snd (advanceOnStreet_spec car st t)) = segment car + int k"
      unfolding sg sn by simp
    moreover have "nat (segment car) + k < length (distance st)"
      "off < distance st ! (nat (segment car) + k)"
      using kl ak b(2) by (simp_all add: n_def)
    ultimately show ?thesis
      using b(3) off0 ip by blast
  qed
  have none: "fst (advanceOnStreet_spec car st t)
            = (travelled car st t - sum_list (ahead car st))
                / approachSpeed (speed car) (Street.speed st) t
          \<and> 0 \<le> fst (advanceOnStreet_spec car st t)
          \<and> segment (snd (advanceOnStreet_spec car st t)) = int (length (distance st))
          \<and> atPoint (last (points st)) (snd (advanceOnStreet_spec car st t))
          \<and> segmentDist (snd (advanceOnStreet_spec car st t)) = last (distance st)
          \<and> direction (snd (advanceOnStreet_spec car st t))
               = Some (streetHeading st (int (length (distance st))))"
    if loc: "locate (ahead car st) (travelled car st t) = None"
  proof -
    have "sum_list (ahead car st) \<le> travelled car st t"
      using locate_None_overshoot [OF _ loc] D0 by (simp add: D_def)
    then have "0 \<le> (travelled car st t - sum_list (ahead car st)) / v"
      using v by simp
    then show ?thesis
      by (simp add: advanceOnStreet_spec_def Let_def loc atPoint_def v_def)
  qed
  have iff: "locate (ahead car st) (travelled car st t) = None
             \<longleftrightarrow> sum_list (ahead car st) \<le> travelled car st t"
    if nn: "\<forall>l \<in> set (distance st). 0 \<le> l"
  proof (rule locate_None_iff)
    show "\<forall>l \<in> set (ahead car st). 0 \<le> l"
      using nn by (auto simp: ahead_def dest: in_set_dropD)
    show "0 \<le> travelled car st t"
      using D0 by (simp add: D_def)
  qed
  from eq v D0 some none iff show ?thesis
    unfolding v_def D_def by blast
qed

theorem moveCarOnStreet_outcomes_witness:
  "0 \<le> speed carA \<and> 0 < Street.speed streetA \<and> (0::real) < 1
   \<and> length (points streetA) = length (distance streetA) + 1
   \<and> 0 \<le> segment carA \<and> segment carA < int (length (distance streetA))
   \<and> 0 \<le> segmentDist carA
   \<and> travelled carA streetA 1 = 105 \<and> ahead carA streetA = [100]
   \<and> locate (ahead carA streetA) (travelled carA streetA 1) = None
   \<and> moveCarOnStreet carA streetA 1 = Inr (1 / 2, carAtEnd)
   \<and> advanceOnStreet_spec carA streetA 1 = (1 / 2, carAtEnd)
   \<and> locate (ahead carA streetBend) (travelled carA streetBend 1) = Some (1, 5)
   \<and> moveCarOnStreet carA streetBend 1 = Inr (- 1, carPastBend)
   \<and> advanceOnStreet_spec carA streetBend 1 = (- 1, carPastBend)
   \<and> interpolated streetBend carPastBend
   \<and> locate (ahead carNew streetA) (travelled carNew streetA 1) = Some (0, 60)
   \<and> moveCarOnStreet carNew streetA 1 = Inr (- 1, carDriven)
   \<and> advanceOnStreet_spec carNew streetA 1 = (- 1, carDriven)"
proof -
  have a: "travelled carA streetA 1 = 105" "ahead carA streetA = [100]"
    "travelled carA streetBend 1 = 105" "ahead carA streetBend = [100, 50]"
    "travelled carNew streetA 1 = 60" "ahead carNew streetA = [100]"
    by (simp_all add: travelled_def ahead_def approachSpeed_def accelerationDefault_def
        carA_def carNew_def streetA_def streetBend_def)
  have h: "0 \<le> speed carA" "0 < Street.speed streetA" "(0::real) < 1"
    "length (points streetA) = length (distance streetA) + 1"
    "0 \<le> segment carA" "segment carA < int (length (distance streetA))"
    "0 \<le> segmentDist carA"
    "0 < Street.speed streetBend"
    "length (points streetBend) = length (distance streetBend) + 1"
    "segment carA < int (length (distance streetBend))"
    "0 \<le> speed carNew" "0 \<le> segment carNew" "segment carNew < int (length (distance streetA))"
    "0 \<le> segmentDist carNew"
    by (simp_all add: carA_def carNew_def streetA_def streetBend_def)
  have s1: "advanceOnStreet_spec carA streetA 1 = (1 / 2, carAtEnd)"
    using moveCarOnStreet_outcomes [of carA streetA 1] h drive_carA by simp
  have s2: "advanceOnStreet_spec carA streetBend 1 = (- 1, carPastBend)"
    using moveCarOnStreet_outcomes [of carA streetBend 1] h drive_carA_bend by simp
  have s3: "advanceOnStreet_spec carNew streetA 1 = (- 1, carDriven)"
    using moveCarOnStreet_outcomes [of carNew streetA 1] h drive_carNew by simp
  have "interpolated streetBend carPastBend"
    by (simp add: interpolated_def carPastBend_def streetBend_def)
  then show ?thesis
    using h s1 s2 s3 drive_carA drive_carA_bend drive_carNew
    by (simp add: a)
qed

section \<open>Restarting a particle\<close>

lemma startStreet_valid:
  assumes ok: "startStreetsOk vis" and r: "0 \<le> r" "r < 1"
  shows "elemAt (startStreetIndices vis) \<lfloor>r * real (length (startStreetIndices vis))\<rfloor>
           = Some (uniformStartStreet vis r)"
    and "uniformStartStreet vis r \<in> set (startStreetIndices vis)"
    and "elemAt (streets vis) (uniformStartStreet vis r)
           = Some (streets vis ! nat (uniformStartStreet vis r))"
    and "2 \<le> length (points (streets vis ! nat (uniformStartStreet vis r)))"
proof -
  let ?ixs = "startStreetIndices vis"
  let ?i = "\<lfloor>r * real (length ?ixs)\<rfloor>"
  have n: "0 < length ?ixs"
    using ok by (simp add: startStreetsOk_def)
  have i: "0 \<le> ?i" "?i < int (length ?ixs)"
    using random_index_in_range [OF r n] by simp_all
  show "elemAt ?ixs ?i = Some (uniformStartStreet vis r)"
    using i by (simp add: elemAt_def uniformStartStreet_def)
  have "nat ?i < length ?ixs"
    using i by linarith
  then show mem: "uniformStartStreet vis r \<in> set ?ixs"
    unfolding uniformStartStreet_def by (rule nth_mem)
  from ok mem have s: "0 \<le> uniformStartStreet vis r"
    "uniformStartStreet vis r < int (length (streets vis))"
    "2 \<le> length (points (streets vis ! nat (uniformStartStreet vis r)))"
    by (auto simp: startStreetsOk_def list_all_iff)
  then show "elemAt (streets vis) (uniformStartStreet vis r)
               = Some (streets vis ! nat (uniformStartStreet vis r))"
    by (simp add: elemAt_def)
  show "2 \<le> length (points (streets vis ! nat (uniformStartStreet vis r)))"
    by (rule s(3))
qed

lemma restartCar_ok:
  assumes ok: "startStreetsOk vis" and r: "0 \<le> g 0" "g 0 < 1"
  shows "restartCar vis g car = Inr (restarted vis g car, g \<circ> Suc \<circ> Suc)"
proof -
  let ?s = "uniformStartStreet vis (g 0)"
  let ?st = "streets vis ! nat ?s"
  note v = startStreet_valid [OF ok r]
  have p: "elemAt (points ?st) 0 = Some (hd (points ?st))"
    using v(4) by (cases "points ?st") (simp_all add: elemAt_def)
  have "setDirectionOnStreet c (Some ?st) = Inr (c\<lparr>direction := Some (streetHeading ?st 0)\<rparr>)"
    if "segment c = 0" for c
    using setDirectionOnStreet_ok [OF v(4), of c] that by simp
  then show ?thesis
    using v(1) v(3) p
    by (simp add: restartCar_def restarted_def randomInteger_def Let_def comp_def)
qed

text \<open>
  Claim C4, as stated, fails. With two start streets of cumulative probabilities 0.9 and 1 and
  the draw 0.6, the first entry whose probability exceeds the draw is street 0, while
  \<open>restartCar\<close> puts the particle on street 1: it takes the entry at index
  \<open>floor (0.6 * 2)\<close> and never reads \<open>startStreetProbabilities\<close>.
\<close>
theorem restartCar_ignores_weights:
  "restartCar visTwo draws06 carA = Inr (carRestarted, draws06)
   \<and> street carRestarted = 1
   \<and> weightedStartStreet visTwo (draws06 0) = Some 0"
  by (simp add: restartCar_def weightedStartStreet_def eval_defs visTwo_def visA_def streetA_def
      streetB_def carA_def carRestarted_def)

text \<open>
  Claim C4, amended. When there is a start street and every start street is a street with two
  points or more, \<open>restartCar\<close> with draws \<open>g 0\<close>, \<open>g 1\<close> in \<open>[0, 1)\<close> succeeds and
  consumes these two draws: the new street is the start street at index
  \<open>floor (g 0 * n)\<close> of the \<open>n\<close> start streets (a uniform choice, whatever the
  probabilities are), the visual variant is \<open>floor (g 1 * numTypes)\<close>, the particle is at
  the first point of the new street with speed 0, segment 0, distance 0, no waiting time, no
  intersection, and its heading is that of the street's first segment.
\<close>
theorem restartCar_uniform_entry:
  assumes "startStreetsOk vis" and "0 \<le> g 0" "g 0 < 1"
  shows "\<exists>c. restartCar vis g car = Inr (c, g \<circ> Suc \<circ> Suc)
           \<and> street c = uniformStartStreet vis (g 0)
           \<and> street c \<in> set (startStreetIndices vis)
           \<and> type c = \<lfloor>g 1 * real_of_int (numTypes vis)\<rfloor>
           \<and> atPoint (hd (points (streets vis ! nat (street c)))) c
           \<and> speed c = 0 \<and> segment c = 0 \<and> segmentDist c = 0 \<and> waiting c = 0
           \<and> intersection c = - 1
           \<and> direction c = Some (streetHeading (streets vis ! nat (street c)) 0)"
  using restartCar_ok [of vis g car] startStreet_valid(2) [of vis "g 0"] assms
  by (simp add: restarted_def atPoint_def Let_def)

theorem restartCar_uniform_entry_witness:
  "startStreetsOk visTwo \<and> 0 \<le> draws06 0 \<and> draws06 0 < 1
   \<and> restartCar visTwo draws06 carA = Inr (carRestarted, draws06)
   \<and> street carRestarted = uniformStartStreet visTwo (draws06 0)
   \<and> type carRestarted = \<lfloor>draws06 1 * real_of_int (numTypes visTwo)\<rfloor>"
  using restartCar_uniform_entry [of visTwo draws06 carA]
  by (simp add: startStreetsOk_def uniformStartStreet_def restartCar_def eval_defs visTwo_def
      visA_def streetA_def streetB_def carA_def carRestarted_def)

section \<open>Routing at the end of a street or path\<close>




lemma drive_carA_in: "moveCarOnStreet carA streetIn 1 = Inr (1 / 2, carAtEnd)"
  by (simp add: eval_defs advanceSegments.simps carA_def streetIn_def streetA_def carAtEnd_def)

lemma no_bucket: "getNextStreet drawsBoundary junction 0 = Inr (- 1, drawsBoundary)"
  by (simp add: getNextStreet_def randomFloat_def junction_def upt_rec)

text \<open>
  Claim C1 does not hold of the code. The cumulative probabilities for the way in from
  street 0 are 0.5 and 0.9999, and the draw is 0.9999: no entry exceeds it, so
  \<open>getNextStreet\<close> gives \<open>-1\<close>. No path leads to street \<open>-1\<close>, so \<open>moveCar\<close> sets
  the particle's street to \<open>-1\<close> and calls \<open>setDirectionOnStreet\<close> with \<open>streets[-1]\<close>,
  which is \<open>undefined\<close>: the update throws a TypeError instead of respawning the particle.
\<close>
theorem boundary_draw_faults:
  "inOutProbabilities junction 0 = Some [1 / 2, 9999 / 10000]
   \<and> drawsBoundary 0 = 9999 / 10000
   \<and> getNextStreet drawsBoundary junction 0 = Inr (- 1, drawsBoundary)
   \<and> findPath junction 0 (- 1) = - 1
   \<and> elemAt (streets visJunction) (- 1) = None
   \<and> moveCar 1 visJunction drawsBoundary carA 1 = Inl TypeError"
proof -
  have f: "streets visJunction = [streetIn, streetB, streetC]"
    "intersections visJunction 5 = Some junction"
    "inTo streetIn = 5" "speed carA = 10" "waiting carA = 0" "intersection carA = - 1"
    "street carA = 0" "intersection carAtEnd = - 1" "street carAtEnd = 0"
    "streetsOut junction = [1, 2]" "findPath junction 0 (- 1) = - 1"
    "inOutProbabilities junction 0 = Some [1 / 2, 9999 / 10000]"
    by (simp_all add: visJunction_def visA_def streetIn_def streetA_def carA_def carAtEnd_def
        junction_def)
  have ls: "leaveStreet visJunction drawsBoundary carAtEnd 1 (1 / 2) = Inl TypeError"
    by (simp add: leaveStreet_def f elemAt_def no_bucket setDirectionOnStreet_def Let_def)
  have body: "moveCarBody visJunction drawsBoundary carA 1 1 = Inl TypeError"
    by (simp add: moveCarBody_def f elemAt_def drive_carA_in ls Let_def)
  have "moveCar 1 visJunction drawsBoundary carA 1 = Inl TypeError"
    by (simp add: moveCar_def body)
  then show ?thesis
    using f no_bucket by (simp add: elemAt_def)
qed

lemma drive_path: "moveCarOnStreet carOnPath pathToA 1 = Inr (1 / 2, carPathEnd)"
  by (simp add: eval_defs advanceSegments.simps carOnPath_def pathToA_def carPathEnd_def)

lemma drive_entered: "moveCarOnStreet carEntered streetB (1 / 2) = Inr (- 1, carOnWrongStreet)"
  by (simp add: eval_defs carEntered_def streetB_def carOnWrongStreet_def)

text \<open>
  Claim C3 does not hold of the code when the path leads into street 0. The particle is on
  path 1 of intersection 5, whose \<open>inTo\<close> is street 0. At the end of the path,
  \<open>inTo || car.street\<close> takes \<open>car.street\<close>, since 0 counts as false: the street of the
  particle stays 1, the index of the path, and the particle goes on along street 1.
\<close>
theorem path_into_street_zero_is_ignored:
  "elemAt (inOutPaths crossing) (street carOnPath) = Some pathToA
   \<and> inTo pathToA = 0
   \<and> leavePath visCrossing carPathEnd = Inr carEntered
   \<and> street carEntered = 1
   \<and> moveCar 2 visCrossing halfDraws carOnPath 1 = Inr (carOnWrongStreet, halfDraws)
   \<and> street carOnWrongStreet = 1"
proof -
  have f: "streets visCrossing = [streetA, streetB]"
    "intersections visCrossing 5 = Some crossing"
    "inOutPaths crossing = [pathToB, pathToA]" "inTo pathToA = 0"
    "speed carOnPath = 10" "waiting carOnPath = 0" "intersection carOnPath = 5"
    "street carOnPath = 1" "intersection carPathEnd = 5" "street carPathEnd = 1"
    "speed carEntered = 10" "waiting carEntered = 0" "intersection carEntered = - 1"
    "street carEntered = 1" "street carOnWrongStreet = 1"
    by (simp_all add: visCrossing_def visA_def crossing_def pathToA_def carOnPath_def
        carPathEnd_def carEntered_def carOnWrongStreet_def)
  have lp: "leavePath visCrossing carPathEnd = Inr carEntered"
    by (simp add: leavePath_def f elemAt_def)
       (simp add: setDirectionOnStreet_def elemAt_def headingOf_def minus3d_def Let_def
          carPathEnd_def carEntered_def streetB_def)
  have b1: "moveCarBody visCrossing halfDraws carOnPath 1 1
              = Inr (Again carEntered halfDraws 1 (1 / 2))"
    by (simp add: moveCarBody_def f elemAt_def drive_path lp Let_def)
  have b2: "moveCarBody visCrossing halfDraws carEntered 1 (1 / 2)
              = Inr (Done carOnWrongStreet halfDraws)"
    by (simp add: moveCarBody_def f elemAt_def drive_entered Let_def)
  have "moveCarLoop (Suc (Suc 0)) visCrossing halfDraws carOnPath 1 1
          = Inr (carOnWrongStreet, halfDraws)"
    by (simp add: b1 b2)
  then have "moveCar 2 visCrossing halfDraws carOnPath 1 = Inr (carOnWrongStreet, halfDraws)"
    by (simp add: moveCar_def numeral_2_eq_2 del: moveCarLoop.simps)
  then show ?thesis
    using f lp by (simp add: elemAt_def)
qed

section \<open>Reconciling the population\<close>

















section \<open>Capacity and target count\<close>

text \<open>
  Claim C7, as stated, fails. The code does not divide the length of a street by the spacing:
  it multiplies it by the reciprocal of the spacing, and the reciprocal is rounded. For cars of
  size 4.25 the spacing is 4.25 * 1.25 * 10 = 53.125; on a street of that length the product
  rounds to \<open>1 - 2^-53\<close>, its floor is 0, and the capacity is 1, where the quotient
  of the claim is 1 and gives the capacity 2.
\<close>
theorem capacity_one_short_at_exact_multiple:
  "changeDensity High visMultiple = Inr (visMultiple\<lparr>numCars := 1\<rparr>)
   \<and> targetCount_spec
        (networkCapacity_spec (streets visMultiple) (y2 (carSize visMultiple))
           (packingRatio visMultiple) (maxCars visMultiple))
        High = 2"
  by (simp add: changeDensity_def computeMaxCars_multiple getNumberOfCars_def visMultiple_def
      visA_def targetCount_spec_def networkCapacity_spec_def capacity_spec_def
      streetMultiple_def carSpacingDefault_def)

text \<open>
  Claim C7, amended. When the car size and the packing ratio are not zero, \<open>changeDensity\<close>
  sets the target count to the \<open>targetCount\<close> of the network capacity (a fifth for Low, a
  third for Medium, all for High), where the capacity is the sum over the streets of
  \<open>floor (totalDistance * d) + 1\<close>, capped at \<open>maxCars\<close>, and \<open>d\<close> is the reciprocal
  \<open>1 / (carSize.y * spacing * packingRatio)\<close>, each operation rounded to a double (the sum is
  exact as long as it stays within \<open>2^53\<close>). The count of a street is the one of the
  claim, \<open>floor (totalDistance / (carSize.y * spacing * packingRatio)) + 1\<close>, or differs from it
  by one, for a quotient up to \<open>2^49\<close>.
\<close>
theorem changeDensity_rounded_target:
  assumes "y2 (carSize vis) * packingRatio vis \<noteq> 0"
    and "(\<Sum>st\<leftarrow>streets vis.
            \<bar>capacityRounded_spec (y2 (carSize vis)) (packingRatio vis) st\<bar>) \<le> 2 ^ 53"
  shows "changeDensity density vis =
           Inr (vis\<lparr>numCars :=
                  targetCount_spec
                    (networkCapacityRounded_spec (streets vis) (y2 (carSize vis))
                       (packingRatio vis) (maxCars vis))
                    density\<rparr>)
         \<and> (\<forall>st\<in>set (streets vis).
               \<bar>totalDistance st / (y2 (carSize vis) * carSpacingDefault * packingRatio vis)\<bar>
                 \<le> 2 ^ 49
               \<longrightarrow> \<bar>real_of_int (capacityRounded_spec (y2 (carSize vis)) (packingRatio vis) st)
                      - capacity_spec (y2 (carSize vis)) (packingRatio vis) st\<bar> \<le> 1)"
proof
  show "changeDensity density vis =
           Inr (vis\<lparr>numCars :=
                  targetCount_spec
                    (networkCapacityRounded_spec (streets vis) (y2 (carSize vis))
                       (packingRatio vis) (maxCars vis))
                    density\<rparr>)"
    by (simp add: changeDensity_def computeMaxCars_rounded [OF assms]
        getNumberOfCars_targetCount)
next
  show "\<forall>st\<in>set (streets vis).
          \<bar>totalDistance st / (y2 (carSize vis) * carSpacingDefault * packingRatio vis)\<bar>
            \<le> 2 ^ 49
          \<longrightarrow> \<bar>real_of_int (capacityRounded_spec (y2 (carSize vis)) (packingRatio vis) st)
                 - capacity_spec (y2 (carSize vis)) (packingRatio vis) st\<bar> \<le> 1"
    using capacityRounded_near [OF assms(1)] by blast
qed

theorem changeDensity_rounded_target_witness:
  "y2 (carSize visA) * packingRatio visA \<noteq> 0
   \<and> (\<Sum>st\<leftarrow>streets visA.
          \<bar>capacityRounded_spec (y2 (carSize visA)) (packingRatio visA) st\<bar>) \<le> 2 ^ 53
   \<and> changeDensity Medium visA = Inr (visA\<lparr>numCars := 3\<rparr>)
   \<and> \<bar>totalDistance streetA / (y2 (carSize visA) * carSpacingDefault * packingRatio visA)\<bar>
        \<le> 2 ^ 49
   \<and> capacityRounded_spec (y2 (carSize visA)) (packingRatio visA) streetA = 9
   \<and> capacity_spec (y2 (carSize visA)) (packingRatio visA) streetA = 9
   \<and> y2 (carSize visMultiple) * packingRatio visMultiple \<noteq> 0
   \<and> (\<Sum>st\<leftarrow>streets visMultiple.
          \<bar>capacityRounded_spec (y2 (carSize visMultiple)) (packingRatio visMultiple) st\<bar>)
        \<le> 2 ^ 53
   \<and> changeDensity Low visMultiple = Inr (visMultiple\<lparr>numCars := 1 / 5\<rparr>)
   \<and> \<bar>real_of_int (capacityRounded_spec (y2 (carSize visMultiple)) (packingRatio visMultiple)
                        streetMultiple)
        - capacity_spec (y2 (carSize visMultiple)) (packingRatio visMultiple) streetMultiple\<bar>
        \<le> 1"
proof -
  have fA: "streets visA = [streetA]" "y2 (carSize visA) = 1" "packingRatio visA = 10"
    "maxCars visA = 9000"
    by (simp_all add: visA_def)
  have fM: "streets visMultiple = [streetMultiple]" "y2 (carSize visMultiple) = 17 / 4"
    "packingRatio visMultiple = 10" "maxCars visMultiple = 9000"
    by (simp_all add: visMultiple_def visA_def)
  have sA: "capacity_spec 1 10 streetA = 9" "totalDistance streetA = 100"
    by (simp_all add: capacity_spec_def streetA_def carSpacingDefault_def)
  have sM: "capacity_spec (17 / 4) 10 streetMultiple = 2"
    "totalDistance streetMultiple = 425 / 8"
    by (simp_all add: capacity_spec_def streetMultiple_def carSpacingDefault_def)
  show ?thesis
    using changeDensity_rounded_target [of visA Medium]
      changeDensity_rounded_target [of visMultiple Low]
    by (simp add: fA fM sA sM capacityRounded_streetA_1 capacityRounded_multiple
        networkCapacityRounded_spec_def targetCount_spec_def carSpacingDefault_def)
qed

text \<open>
  Claim C8, as stated, fails for \<open>setSize\<close>. On the one-street network with target count 9,
  doubling the size leaves the target count at 9, while the new size gives 1, 5 / 3 or 5,
  depending on the density.
\<close>
theorem setSize_keeps_stale_target:
  "numCars (setSize 1 1 2 visA) = 9
   \<and> recomputedTarget Low (setSize 1 1 2 visA) = Inr 1
   \<and> recomputedTarget Medium (setSize 1 1 2 visA) = Inr (5 / 3)
   \<and> recomputedTarget High (setSize 1 1 2 visA) = Inr 5"
  by (simp add: setSize_def visA_def recomputedTarget_def computeMaxCars_streetA_2
      getNumberOfCars_def)

text \<open>
  Claim C8, amended. \<open>changeDensity\<close> recomputes the stored target count from the density
  it is given and the current car size, and leaves the particles as they are. \<open>setSize\<close>
  stores the new car size and nothing else: the target count and the particles are as
  before, and the new size reaches the target count at the next \<open>changeDensity\<close>.
\<close>
theorem density_recomputes_size_only_stores:
  assumes "y2 (carSize vis) * packingRatio vis \<noteq> 0"
  shows "(\<exists>target. recomputedTarget density vis = Inr target
            \<and> changeDensity density vis = Inr (vis\<lparr>numCars := target\<rparr>)
            \<and> carParticles (vis\<lparr>numCars := target\<rparr>) = carParticles vis)
         \<and> setSize dx dy sizeFactor vis
             = vis\<lparr>carSize := \<lparr>x2 = dx * sizeFactor, y2 = dy * sizeFactor\<rparr>\<rparr>
         \<and> numCars (setSize dx dy sizeFactor vis) = numCars vis
         \<and> carParticles (setSize dx dy sizeFactor vis) = carParticles vis"
proof -
  obtain capacity where
    "computeMaxCars vis (y2 (carSize vis)) (packingRatio vis) (maxCars vis) = Inr capacity"
    using computeMaxCars_returns [OF assms] by blast
  then show ?thesis
    by (simp add: changeDensity_def recomputedTarget_def setSize_def)
qed

theorem density_recomputes_size_only_stores_witness:
  "y2 (carSize visA) * packingRatio visA \<noteq> 0
   \<and> recomputedTarget High visA = Inr 9
   \<and> changeDensity High visA = Inr (visA\<lparr>numCars := 9\<rparr>)
   \<and> numCars (setSize 1 1 2 visA) = numCars visA
   \<and> carSize (setSize 1 1 2 visA) = \<lparr>x2 = 2, y2 = 2\<rparr>"
  using density_recomputes_size_only_stores [of visA High 1 1 2]
  by (simp add: recomputedTarget_def changeDensity_def computeMaxCars_streetA_1
      getNumberOfCars_def setSize_def visA_def)

section \<open>Frames without motion\<close>

text \<open>
  Claim C10. On a network without streets, \<open>updateParticles\<close> returns the empty sequence
  and changes nothing: the visualization, with its particles and its target count, and the
  random source are as before.
\<close>
theorem updateParticles_no_streets:
  assumes "streets vis = []"
  shows "updateParticles fuel normalizeV vis g elapsedSeconds = Inr ([], vis, g)"
  using assms by (simp add: updateParticles_def)

theorem updateParticles_no_streets_witness:
  "streets visEmpty = []
   \<and> real (length (carParticles visEmpty)) \<noteq> numCars visEmpty
   \<and> updateParticles 0 (\<lambda>v. None) visEmpty (\<lambda>n. 1 / 2) 1 = Inr ([], visEmpty, \<lambda>n. 1 / 2)"
  using updateParticles_no_streets [of visEmpty 0 "\<lambda>v. None" "\<lambda>n. 1 / 2" 1]
  by (simp add: visEmpty_def)

text \<open>
  Claim C9. While the decorator is paused, \<open>decorate\<close> takes the particles from
  \<open>getParticles\<close> and does not call \<open>updateParticles\<close>: two frames in a row hand the same
  particles to the renderer, the visualization is the same after each of them, and no random
  value is drawn.
\<close>
theorem paused_decorate_freezes:
  assumes "pause dec"
  shows "\<exists>r dec1 dec2.
           decorate fuel normalizeV now1 dec g = Inr (r, dec1, g)
           \<and> decorate fuel normalizeV now2 dec1 g = Inr (r, dec2, g)
           \<and> visualization dec1 = visualization dec
           \<and> visualization dec2 = visualization dec
           \<and> pause dec1 \<and> pause dec2
           \<and> r = (if texturesLoaded dec then Some (carParticles (visualization dec)) else None)"
  using assms by (simp add: decorate_def getParticles_def Let_def)

theorem paused_decorate_freezes_witness:
  "pause decA
   \<and> (\<exists>dec1 dec2.
         decorate 5 (\<lambda>v. None) 16 decA (\<lambda>n. 1 / 2) = Inr (Some [carA], dec1, \<lambda>n. 1 / 2)
         \<and> decorate 5 (\<lambda>v. None) 33 dec1 (\<lambda>n. 1 / 2) = Inr (Some [carA], dec2, \<lambda>n. 1 / 2))"
  using paused_decorate_freezes [of decA 5 "\<lambda>v. None" 16 "\<lambda>n. 1 / 2" 33]
  by (auto simp add: decA_def)

end
